theory Spec2Isabelle
  imports
    Complex_Main
    "HOL-Library.AList"
    "HOL-Library.Sublist"
    "HOL-Library.Char_ord"
    "HOL-Library.List_Lexorder"
    "HOL-Library.Multiset"
begin

section \<open>The odgi stats module of MultiQC\<close>

text \<open>
  A shallow embedding of \<^verbatim>\<open>multiqc/modules/odgi/stats.py\<close>.

  Python strings are modelled as \<open>string\<close>; the operations used by the module
  (splitting on a separator, substring test, comparison) act on characters one by one,
  so they read the same on code points as on the characters of \<open>string\<close>.
  A Python dict is an association list with distinct keys in insertion order:
  \<open>AList.update\<close> overwrites the value of a key that is present, keeping its position,
  and appends a new key at the end, as \<^verbatim>\<open>dict.update\<close> does.
  Exceptions are values of \<open>py_error\<close>.
  The builtin \<^verbatim>\<open>float\<close> is not part of the module: every function that calls it
  takes it as the parameter \<open>flt\<close>, which returns \<open>None\<close> where \<^verbatim>\<open>float\<close> raises
  \<^verbatim>\<open>ValueError\<close>.
\<close>

subsection \<open>Errors\<close>

datatype py_error = IndexError | ValueError | KeyError | UserWarning | SystemExit int

text \<open>The specification calls a failure of the fixed layout a format error: an index out
  of range or a token that is not a number.\<close>

definition FormatError :: "py_error \<Rightarrow> bool" where
  "FormatError e = (e = IndexError \<or> e = ValueError)"

subsection \<open>String operations of Python used by the module\<close>

definition TAB :: char where
  "TAB = CHR 0x09"

definition LF :: char where
  "LF = CHR 0x0A"

definition CR :: char where
  "CR = CHR 0x0D"

text \<open>The line boundaries of \<^verbatim>\<open>str.splitlines\<close> below code point 256.
  (The two remaining boundaries, U+2028 and U+2029, are not characters of \<open>char\<close>.)\<close>

definition is_linebreak :: "char \<Rightarrow> bool" where
  "is_linebreak c =
     (c \<in> set [CHR 0x0A, CHR 0x0B, CHR 0x0C, CHR 0x0D, CHR 0x1C, CHR 0x1D, CHR 0x1E, CHR 0x85])"

text \<open>\<^verbatim>\<open>s.splitlines()\<close>: the lines without their line breaks; \<^verbatim>\<open>\r\n\<close> is one
  break, and a break at the very end opens no further line.\<close>

fun splitlines :: "string \<Rightarrow> string list" where
  "splitlines [] = []"
| "splitlines [c] = (if is_linebreak c then [[]] else [[c]])"
| "splitlines (c # d # ds) =
     (if c = CR \<and> d = LF then [] # splitlines ds
      else if is_linebreak c then [] # splitlines (d # ds)
      else (case splitlines (d # ds) of
              [] \<Rightarrow> [[c]]
            | l # ls \<Rightarrow> (c # l) # ls))"

text \<open>\<^verbatim>\<open>s.split(sep)\<close> for a separator of one character: always at least one field.\<close>

fun split :: "char \<Rightarrow> string \<Rightarrow> string list" where
  "split sep [] = [[]]"
| "split sep (c # cs) =
     (if c = sep then [] # split sep cs
      else (case split sep cs of
              [] \<Rightarrow> [[c]]
            | l # ls \<Rightarrow> (c # l) # ls))"

text \<open>\<^verbatim>\<open>sub in s\<close> on strings: \<open>sub\<close> occurs in \<open>s\<close> as a contiguous block.\<close>

fun contains :: "string \<Rightarrow> string \<Rightarrow> bool" where
  "contains sub [] = (sub = [])"
| "contains sub (c # cs) = (prefix sub (c # cs) \<or> contains sub cs)"

text \<open>\<^verbatim>\<open>xs[i]\<close> for an index that is not negative.\<close>

definition get :: "'a list \<Rightarrow> nat \<Rightarrow> py_error + 'a" where
  "get xs i = (if i < length xs then Inr (xs ! i) else Inl IndexError)"

text \<open>Sequencing of computations that may raise: the first error ends the evaluation.\<close>

definition bind_err :: "py_error + 'a \<Rightarrow> ('a \<Rightarrow> py_error + 'b) \<Rightarrow> py_error + 'b" where
  "bind_err m k = (case m of Inl e \<Rightarrow> Inl e | Inr x \<Rightarrow> k x)"

text \<open>\<^verbatim>\<open>float(s)\<close>, for the conversion \<open>flt\<close> taken as parameter.\<close>

definition to_float :: "(string \<Rightarrow> 'f option) \<Rightarrow> string \<Rightarrow> py_error + 'f" where
  "to_float flt s = (case flt s of None \<Rightarrow> Inl ValueError | Some v \<Rightarrow> Inr v)"

text \<open>\<^verbatim>\<open>float(xs[i])\<close>: the index is evaluated first, then the conversion.\<close>

definition float_at :: "(string \<Rightarrow> 'f option) \<Rightarrow> string list \<Rightarrow> nat \<Rightarrow> py_error + 'f" where
  "float_at flt xs i = bind_err (get xs i) (to_float flt)"

subsection \<open>Data\<close>

text \<open>The input record \<^verbatim>\<open>f\<close> of the host: \<^verbatim>\<open>f['fn']\<close> and \<^verbatim>\<open>f['f']\<close>.\<close>

record RawRecord =
  r_fn :: string
  r_f :: string

text \<open>The three inner dicts that \<^verbatim>\<open>compress_stats_data\<close> builds have fixed keys; they
  are records with one field for each key. The outer keys \<^verbatim>\<open>'General stats <fn>'\<close>,
  \<^verbatim>\<open>'Mean_links_length <fn>'\<close> and \<^verbatim>\<open>'Sum_of_path_nodes_distances <fn>'\<close> are the
  three fields of \<open>FileReport\<close>.\<close>

record 'f GeneralStats =
  Length :: 'f
  Nodes :: 'f
  Edges :: 'f
  Paths :: 'f

record LinkStats =
  Path :: string
  In_node_space :: string
  In_nucleotide_space :: string
  Num_links_considered :: string

record DistanceStats =
  dPath :: string
  dIn_node_space :: string
  dIn_nucleotide_space :: string
  dNodes :: string
  dNucleotides :: string
  dNum_penalties :: string
  dNum_penalties_different_orientation :: string

record 'f FileReport =
  General_stats :: "'f GeneralStats"
  Mean_links_length :: LinkStats
  Sum_of_path_nodes_distances :: DistanceStats

text \<open>\<^verbatim>\<open>self.odgi_stats_map\<close>.\<close>

type_synonym 'f ReportStore = "(string \<times> 'f FileReport) list"

subsection \<open>\<^verbatim>\<open>strip_file_name\<close>\<close>

definition unknown_file_name_msg :: string where
  "unknown_file_name_msg =
     ''Unknown file name: File name must either contain seqwish, smooth or consensus@!''"

text \<open>The result is the list of messages given to \<^verbatim>\<open>log.error\<close> and the outcome;
  \<^verbatim>\<open>sys.exit(1)\<close> is the outcome \<open>Inl (SystemExit 1)\<close>.\<close>

definition strip_file_name :: "string \<Rightarrow> string list \<times> (py_error + string)" where
  "strip_file_name name =
     (if contains ''seqwish.og'' name then ([], Inr ''seqwish'')
      else if contains ''smooth'' name then ([], Inr ''smooth'')
      else
        (let consensus_identifier = filter (contains ''consensus@'') (split (CHR ''.'') name)
         in case consensus_identifier of
              e # _ \<Rightarrow> ([], Inr e)
            | [] \<Rightarrow> ([unknown_file_name_msg], Inl (SystemExit 1))))"

subsection \<open>\<^verbatim>\<open>compress_stats_data\<close>\<close>

text \<open>The dict display is evaluated from left to right: the four conversions of the
  general stats, then the four fields of the mean links length, then the seven fields of
  the sum of path node distances. The first index out of range or the first token that
  is not a number ends the evaluation.\<close>

definition general_stats :: "(string \<Rightarrow> 'f option) \<Rightarrow> string list \<Rightarrow> py_error + 'f GeneralStats" where
  "general_stats flt stats =
     bind_err (float_at flt stats 0) (\<lambda>l.
     bind_err (float_at flt stats 1) (\<lambda>n.
     bind_err (float_at flt stats 2) (\<lambda>e.
     bind_err (float_at flt stats 3) (\<lambda>p.
       Inr \<lparr>Length = l, Nodes = n, Edges = e, Paths = p\<rparr>))))"

definition link_stats :: "string list \<Rightarrow> py_error + LinkStats" where
  "link_stats mean_links_length =
     bind_err (get mean_links_length 0) (\<lambda>a.
     bind_err (get mean_links_length 1) (\<lambda>b.
     bind_err (get mean_links_length 2) (\<lambda>c.
     bind_err (get mean_links_length 3) (\<lambda>d.
       Inr \<lparr>Path = a, In_node_space = b, In_nucleotide_space = c,
            Num_links_considered = d\<rparr>))))"

definition distance_stats :: "string list \<Rightarrow> py_error + DistanceStats" where
  "distance_stats sum_of_path_nodes_distances =
     bind_err (get sum_of_path_nodes_distances 0) (\<lambda>a.
     bind_err (get sum_of_path_nodes_distances 1) (\<lambda>b.
     bind_err (get sum_of_path_nodes_distances 2) (\<lambda>c.
     bind_err (get sum_of_path_nodes_distances 3) (\<lambda>d.
     bind_err (get sum_of_path_nodes_distances 4) (\<lambda>e.
     bind_err (get sum_of_path_nodes_distances 5) (\<lambda>g.
     bind_err (get sum_of_path_nodes_distances 6) (\<lambda>h.
       Inr \<lparr>dPath = a, dIn_node_space = b, dIn_nucleotide_space = c, dNodes = d,
            dNucleotides = e, dNum_penalties = g,
            dNum_penalties_different_orientation = h\<rparr>)))))))"

definition compress_stats_data ::
  "(string \<Rightarrow> 'f option) \<Rightarrow> string \<Rightarrow> string list \<Rightarrow> string list \<Rightarrow> string list
     \<Rightarrow> py_error + 'f ReportStore" where
  "compress_stats_data flt name stats mean_links_length sum_of_path_nodes_distances =
     bind_err (general_stats flt stats) (\<lambda>g.
     bind_err (link_stats mean_links_length) (\<lambda>l.
     bind_err (distance_stats sum_of_path_nodes_distances) (\<lambda>d.
       Inr [(name, \<lparr>General_stats = g, Mean_links_length = l,
                     Sum_of_path_nodes_distances = d\<rparr>)])))"

subsection \<open>\<^verbatim>\<open>parse_odgi_stats_report\<close>\<close>

text \<open>\<^verbatim>\<open>d.update(other)\<close>: the entries of \<open>other\<close> are stored one after the other.\<close>

definition dict_update :: "('k \<times> 'v) list \<Rightarrow> ('k \<times> 'v) list \<Rightarrow> ('k \<times> 'v) list" where
  "dict_update d other = fold (\<lambda>(k, v). AList.update k v) other d"

text \<open>The method takes \<^verbatim>\<open>self.odgi_stats_map\<close> and returns the exception raised, if
  any, with the map as the method leaves it. The map is written by the last statement
  only, once its argument is evaluated.\<close>

definition parse_odgi_stats_report ::
  "(string \<Rightarrow> 'f option) \<Rightarrow> RawRecord \<Rightarrow> 'f ReportStore \<Rightarrow> py_error option \<times> 'f ReportStore" where
  "parse_odgi_stats_report flt rc odgi_stats_map =
     (let lines = splitlines (r_f rc) in
      case bind_err (get lines 1) (\<lambda>l1.
           bind_err (get lines 4) (\<lambda>l4.
           bind_err (get lines 7) (\<lambda>l7.
             compress_stats_data flt (r_fn rc) (split TAB l1) (split TAB l4) (split TAB l7))))
      of Inl e \<Rightarrow> (Some e, odgi_stats_map)
       | Inr d \<Rightarrow> (None, dict_update odgi_stats_map d))"

text \<open>The loop of \<^verbatim>\<open>__init__\<close> over the files found: the first exception ends it.
  (\<^verbatim>\<open>add_data_source\<close> belongs to the host and does not touch the map.)\<close>

fun parse_all ::
  "(string \<Rightarrow> 'f option) \<Rightarrow> RawRecord list \<Rightarrow> 'f ReportStore \<Rightarrow> py_error option \<times> 'f ReportStore" where
  "parse_all flt [] m = (None, m)"
| "parse_all flt (rc # rcs) m =
     (case parse_odgi_stats_report flt rc m of
        (Some e, m') \<Rightarrow> (Some e, m')
      | (None, m') \<Rightarrow> parse_all flt rcs m')"

subsection \<open>\<^verbatim>\<open>plot_general_odgi_stats\<close>\<close>

text \<open>The loop over \<^verbatim>\<open>self.odgi_stats_map.keys()\<close>, with the dict \<^verbatim>\<open>data\<close> as
  accumulator. The result is what is handed to \<^verbatim>\<open>general_stats_addcols\<close>, with the
  messages logged.\<close>

fun general_rows ::
  "'f ReportStore \<Rightarrow> string list \<Rightarrow> (string \<times> 'f GeneralStats) list
     \<Rightarrow> string list \<times> (py_error + (string \<times> 'f GeneralStats) list)" where
  "general_rows m [] data = ([], Inr data)"
| "general_rows m (k # ks) data =
     (case map_of m k of
        None \<Rightarrow> ([], Inl KeyError)
      | Some file_stats \<Rightarrow>
          (case strip_file_name k of
             (lg, Inl e) \<Rightarrow> (lg, Inl e)
           | (lg, Inr unique_file_identifier) \<Rightarrow>
               (case general_rows m ks
                       (AList.update unique_file_identifier (General_stats file_stats) data)
                of (lg', r) \<Rightarrow> (lg @ lg', r))))"

definition plot_general_odgi_stats ::
  "'f ReportStore \<Rightarrow> string list \<times> (py_error + (string \<times> 'f GeneralStats) list)" where
  "plot_general_odgi_stats odgi_stats_map =
     general_rows odgi_stats_map (map fst odgi_stats_map) []"

subsection \<open>\<^verbatim>\<open>plot_odgi_metrics\<close>\<close>

text \<open>The four dicts given to \<^verbatim>\<open>linegraph.plot\<close>, under the names they are given
  there.\<close>

record 'f Series =
  in_node_space_mean :: "(string \<times> 'f) list"
  in_nucleotide_space_mean :: "(string \<times> 'f) list"
  in_node_space_sum :: "(string \<times> 'f) list"
  in_nucleotide_space_sum :: "(string \<times> 'f) list"

definition empty_series :: "'f Series" where
  "empty_series = \<lparr>in_node_space_mean = [], in_nucleotide_space_mean = [],
                    in_node_space_sum = [], in_nucleotide_space_sum = []\<rparr>"

text \<open>\<^verbatim>\<open>sorted(keys)\<close>, \<^verbatim>\<open>names[-2:]\<close> and \<^verbatim>\<open>names[:-2]\<close>. A slice never raises:
  with fewer than two names \<^verbatim>\<open>names[-2:]\<close> is the whole list and \<^verbatim>\<open>names[:-2]\<close> is
  empty.\<close>

definition sorted_filenames :: "string list \<Rightarrow> string list" where
  "sorted_filenames keys =
     (let odgi_stats_file_names = sort keys;
          seq_smooth = drop (length odgi_stats_file_names - 2) odgi_stats_file_names
      in seq_smooth @ take (length odgi_stats_file_names - 2) odgi_stats_file_names)"

text \<open>The body of the loop for one file, once its identifier is known: four times a
  conversion followed by the update of one dict, in the order of the source.\<close>

definition metrics_step ::
  "(string \<Rightarrow> 'f option) \<Rightarrow> 'f FileReport \<Rightarrow> string \<Rightarrow> 'f Series \<Rightarrow> py_error + 'f Series" where
  "metrics_step flt file_stats uid acc =
     bind_err (to_float flt (In_node_space (Mean_links_length file_stats))) (\<lambda>a.
     let acc1 = acc\<lparr>in_node_space_mean := AList.update uid a (in_node_space_mean acc)\<rparr> in
     bind_err (to_float flt (In_nucleotide_space (Mean_links_length file_stats))) (\<lambda>b.
     let acc2 = acc1\<lparr>in_nucleotide_space_mean :=
                       AList.update uid b (in_nucleotide_space_mean acc1)\<rparr> in
     bind_err (to_float flt (dIn_node_space (Sum_of_path_nodes_distances file_stats))) (\<lambda>c.
     let acc3 = acc2\<lparr>in_node_space_sum := AList.update uid c (in_node_space_sum acc2)\<rparr> in
     bind_err (to_float flt (dIn_nucleotide_space (Sum_of_path_nodes_distances file_stats))) (\<lambda>d.
       Inr (acc3\<lparr>in_nucleotide_space_sum :=
                   AList.update uid d (in_nucleotide_space_sum acc3)\<rparr>)))))"

text \<open>The loop over \<^verbatim>\<open>sorted_filenames\<close>, with the four dicts as accumulator.\<close>

fun metrics_rows ::
  "(string \<Rightarrow> 'f option) \<Rightarrow> 'f ReportStore \<Rightarrow> string list \<Rightarrow> 'f Series
     \<Rightarrow> string list \<times> (py_error + 'f Series)" where
  "metrics_rows flt m [] acc = ([], Inr acc)"
| "metrics_rows flt m (k # ks) acc =
     (case map_of m k of
        None \<Rightarrow> ([], Inl KeyError)
      | Some file_stats \<Rightarrow>
          (case strip_file_name k of
             (lg, Inl e) \<Rightarrow> (lg, Inl e)
           | (lg, Inr unique_file_identifier) \<Rightarrow>
               (case metrics_step flt file_stats unique_file_identifier acc of
                  Inl e \<Rightarrow> (lg, Inl e)
                | Inr acc' \<Rightarrow>
                    (case metrics_rows flt m ks acc' of (lg', r) \<Rightarrow> (lg @ lg', r)))))"

definition plot_odgi_metrics ::
  "(string \<Rightarrow> 'f option) \<Rightarrow> 'f ReportStore \<Rightarrow> string list \<times> (py_error + 'f Series)" where
  "plot_odgi_metrics flt odgi_stats_map =
     metrics_rows flt odgi_stats_map (sorted_filenames (map fst odgi_stats_map)) empty_series"

subsection \<open>\<^verbatim>\<open>__init__\<close>\<close>

text \<open>The run on the files found by the host: the map, the rows of the general
  statistics table and the four series, or the first exception. (\<^verbatim>\<open>log.info\<close> and
  \<^verbatim>\<open>write_data_file\<close> change nothing that is modelled.)\<close>

definition init ::
  "(string \<Rightarrow> 'f option) \<Rightarrow> RawRecord list
     \<Rightarrow> string list \<times> (py_error + 'f ReportStore \<times> (string \<times> 'f GeneralStats) list \<times> 'f Series)" where
  "init flt log_files =
     (if log_files = [] then ([], Inl UserWarning)
      else
        (case parse_all flt log_files [] of
           (Some e, _) \<Rightarrow> ([], Inl e)
         | (None, m) \<Rightarrow>
             (case plot_general_odgi_stats m of
                (lg, Inl e) \<Rightarrow> (lg, Inl e)
              | (lg, Inr data) \<Rightarrow>
                  (case plot_odgi_metrics flt m of
                     (lg', Inl e) \<Rightarrow> (lg @ lg', Inl e)
                   | (lg', Inr series) \<Rightarrow> (lg @ lg', Inr (m, data, series))))))"

subsection \<open>Concrete inputs\<close>

text \<open>A conversion for the examples: the value of a plain decimal literal (digits, with
  an optional fractional part) as a rational number, and no value for anything else.
  On such literals \<^verbatim>\<open>float\<close> returns the nearest double; \<^verbatim>\<open>float\<close> accepts more
  spellings, none of which the examples use.\<close>

definition is_digit :: "char \<Rightarrow> bool" where
  "is_digit c = (c \<in> set ''0123456789'')"

definition digits_value :: "string \<Rightarrow> nat" where
  "digits_value ds = foldl (\<lambda>a c. 10 * a + (of_char c - 48)) 0 ds"

definition decimal_float :: "string \<Rightarrow> rat option" where
  "decimal_float s =
     (let ip = takeWhile (\<lambda>c. c \<noteq> CHR ''.'') s;
          fp = drop 1 (dropWhile (\<lambda>c. c \<noteq> CHR ''.'') s)
      in if ip \<noteq> [] \<and> list_all is_digit ip \<and> list_all is_digit fp
         then Some (of_nat (digits_value (ip @ fp)) / 10 ^ length fp)
         else None)"

text \<open>\<^verbatim>\<open>'\t'.join(fields)\<close>, and a text made of lines that each end with a line
  feed.\<close>

fun tsv :: "string list \<Rightarrow> string" where
  "tsv [] = []"
| "tsv [x] = x"
| "tsv (x # y # ys) = x @ TAB # tsv (y # ys)"

definition unlines :: "string list \<Rightarrow> string" where
  "unlines ls = concat (map (\<lambda>l. l @ [LF]) ls)"

text \<open>A report with the layout of the docstring of \<^verbatim>\<open>parse_odgi_stats_report\<close>:
  the header lines and section markers are those of the docstring, the three data rows
  are given by their fields.\<close>

definition report_lines :: "string list \<Rightarrow> string list \<Rightarrow> string list \<Rightarrow> string list" where
  "report_lines stats mean_links_length sum_of_path_nodes_distances =
     [tsv [''length'', ''nodes'', ''edges'', ''paths''],
      tsv stats,
      ''#mean_links_length'',
      tsv [''path'', ''in_node_space'', ''in_nucleotide_space'', ''num_links_considered''],
      tsv mean_links_length,
      ''#sum_of_path_node_distances'',
      tsv [''path'', ''in_node_space'', ''in_nucleotide_space'', ''nodes'', ''nucleotides'',
           ''num_penalties'', ''num_penalties_different_orientation''],
      tsv sum_of_path_nodes_distances]"

text \<open>The report of the docstring, under the file name of the end-to-end scenario of the
  specification.\<close>

definition example_record :: RawRecord where
  "example_record =
     \<lparr>r_fn = ''x.seqwish.og.tsv'',
      r_f = unlines (report_lines
              [''8778'', ''168'', ''243'', ''35'']
              [''all_paths'', ''9.75053'', ''497.321'', ''942'']
              [''all_paths'', ''20.0686'', ''19.5609'', ''977'', ''51365'', ''90'', ''0''])\<rparr>"

text \<open>The same report cut after its fifth line.\<close>

definition short_record :: RawRecord where
  "short_record =
     \<lparr>r_fn = ''x.seqwish.og.tsv'',
      r_f = unlines (take 5 (report_lines
              [''8778'', ''168'', ''243'', ''35'']
              [''all_paths'', ''9.75053'', ''497.321'', ''942'']
              [''all_paths'', ''20.0686'', ''19.5609'', ''977'', ''51365'', ''90'', ''0'']))\<rparr>"

text \<open>A report whose second general-stats field is not a number.\<close>

definition nonnumeric_stats_record :: RawRecord where
  "nonnumeric_stats_record =
     \<lparr>r_fn = ''x.seqwish.og.tsv'',
      r_f = unlines (report_lines
              [''8778'', ''many'', ''243'', ''35'']
              [''all_paths'', ''9.75053'', ''497.321'', ''942'']
              [''all_paths'', ''20.0686'', ''19.5609'', ''977'', ''51365'', ''90'', ''0''])\<rparr>"

text \<open>A report with one field more than expected on each of the three data rows.\<close>

definition extra_fields_record :: RawRecord where
  "extra_fields_record =
     \<lparr>r_fn = ''x.seqwish.og.tsv'',
      r_f = unlines (report_lines
              [''8778'', ''168'', ''243'', ''35'', ''extra'']
              [''all_paths'', ''9.75053'', ''497.321'', ''942'', ''extra'']
              [''all_paths'', ''20.0686'', ''19.5609'', ''977'', ''51365'', ''90'', ''0'',
               ''extra''])\<rparr>"

text \<open>A report with one field missing on the row of the mean links length.\<close>

definition few_fields_record :: RawRecord where
  "few_fields_record =
     \<lparr>r_fn = ''x.seqwish.og.tsv'',
      r_f = unlines (report_lines
              [''8778'', ''168'', ''243'', ''35'']
              [''all_paths'', ''9.75053'', ''497.321'']
              [''all_paths'', ''20.0686'', ''19.5609'', ''977'', ''51365'', ''90'', ''0''])\<rparr>"

text \<open>A report whose mean links length in node space is not a number.\<close>

definition nonnumeric_links_record :: RawRecord where
  "nonnumeric_links_record =
     \<lparr>r_fn = ''x.seqwish.og.tsv'',
      r_f = unlines (report_lines
              [''8778'', ''168'', ''243'', ''35'']
              [''all_paths'', ''NA'', ''497.321'', ''942'']
              [''all_paths'', ''20.0686'', ''19.5609'', ''977'', ''51365'', ''90'', ''0''])\<rparr>"

text \<open>Two reports whose file names both give the identifier \<open>smooth\<close>, and the map that
  holds what is extracted from them.\<close>

definition smooth_a_record :: RawRecord where
  "smooth_a_record =
     \<lparr>r_fn = ''a.smooth.tsv'',
      r_f = unlines (report_lines
              [''8778'', ''168'', ''243'', ''35'']
              [''all_paths'', ''9.75053'', ''497.321'', ''942'']
              [''all_paths'', ''20.0686'', ''19.5609'', ''977'', ''51365'', ''90'', ''0''])\<rparr>"

definition smooth_b_record :: RawRecord where
  "smooth_b_record =
     \<lparr>r_fn = ''b.smooth.tsv'',
      r_f = unlines (report_lines
              [''9000'', ''170'', ''250'', ''36'']
              [''all_paths'', ''8.5'', ''400.25'', ''950'']
              [''all_paths'', ''18.5'', ''17.25'', ''980'', ''52000'', ''91'', ''0''])\<rparr>"

definition smooth_a_report :: "rat FileReport" where
  "smooth_a_report =
     \<lparr>General_stats = \<lparr>Length = 8778, Nodes = 168, Edges = 243, Paths = 35\<rparr>,
      Mean_links_length =
        \<lparr>Path = ''all_paths'', In_node_space = ''9.75053'', In_nucleotide_space = ''497.321'',
         Num_links_considered = ''942''\<rparr>,
      Sum_of_path_nodes_distances =
        \<lparr>dPath = ''all_paths'', dIn_node_space = ''20.0686'',
         dIn_nucleotide_space = ''19.5609'', dNodes = ''977'', dNucleotides = ''51365'',
         dNum_penalties = ''90'', dNum_penalties_different_orientation = ''0''\<rparr>\<rparr>"

definition smooth_b_report :: "rat FileReport" where
  "smooth_b_report =
     \<lparr>General_stats = \<lparr>Length = 9000, Nodes = 170, Edges = 250, Paths = 36\<rparr>,
      Mean_links_length =
        \<lparr>Path = ''all_paths'', In_node_space = ''8.5'', In_nucleotide_space = ''400.25'',
         Num_links_considered = ''950''\<rparr>,
      Sum_of_path_nodes_distances =
        \<lparr>dPath = ''all_paths'', dIn_node_space = ''18.5'',
         dIn_nucleotide_space = ''17.25'', dNodes = ''980'', dNucleotides = ''52000'',
         dNum_penalties = ''91'', dNum_penalties_different_orientation = ''0''\<rparr>\<rparr>"

definition smooth_store :: "rat ReportStore" where
  "smooth_store = [(''a.smooth.tsv'', smooth_a_report), (''b.smooth.tsv'', smooth_b_report)]"

section \<open>Properties\<close>

subsection \<open>Deriving the group identifier\<close>

text \<open>The substring test is the one of the library.\<close>

lemma contains_sublist: "contains sub s \<longleftrightarrow> sublist sub s"
  by (induction s) (auto simp: sublist_Cons_right)

lemma split_not_Nil: "split sep s \<noteq> []"
  by (induction s) (auto split: list.splits)

lemma strip_file_name_cases:
  "strip_file_name name = ([], Inr ''seqwish'') \<and> contains ''seqwish.og'' name
   \<or> strip_file_name name = ([], Inr ''smooth'') \<and> \<not> contains ''seqwish.og'' name
        \<and> contains ''smooth'' name
   \<or> (\<exists>e es. strip_file_name name = ([], Inr e)
        \<and> filter (contains ''consensus@'') (split (CHR ''.'') name) = e # es)
   \<or> strip_file_name name = ([unknown_file_name_msg], Inl (SystemExit 1))"
  unfolding strip_file_name_def Let_def by (simp split: list.splits)

lemma strip_file_name_log: "strip_file_name name = (lg, Inr g) \<Longrightarrow> lg = []"
  using strip_file_name_cases [of name] by auto

lemma strip_file_name_error:
  "strip_file_name name = (lg, Inl e) \<Longrightarrow> lg = [unknown_file_name_msg] \<and> e = SystemExit 1"
  using strip_file_name_cases [of name] by auto

text \<open>
  Claim C2. Deriving the group identifier is a function of the file name alone and logs
  nothing when it returns: the result is \<open>seqwish\<close> when the name contains
  \<open>seqwish.og\<close>; otherwise \<open>smooth\<close> when it contains \<open>smooth\<close>; otherwise the first
  of the segments between dots that contains \<open>consensus@\<close>. The three names of the
  specification give \<open>seqwish\<close>, \<open>smooth\<close> and \<open>consensus@1\<close>.
\<close>

theorem strip_file_name_spec:
  "(contains ''seqwish.og'' name \<longrightarrow> strip_file_name name = ([], Inr ''seqwish''))
   \<and> (\<not> contains ''seqwish.og'' name \<and> contains ''smooth'' name
        \<longrightarrow> strip_file_name name = ([], Inr ''smooth''))
   \<and> (\<not> contains ''seqwish.og'' name \<and> \<not> contains ''smooth'' name
        \<and> split (CHR ''.'') name = pre @ e # post
        \<and> (\<forall>s \<in> set pre. \<not> contains ''consensus@'' s) \<and> contains ''consensus@'' e
        \<longrightarrow> strip_file_name name = ([], Inr e))
   \<and> strip_file_name ''sample.seqwish.og.tsv'' = ([], Inr ''seqwish'')
   \<and> strip_file_name ''sample.smooth.fa.tsv'' = ([], Inr ''smooth'')
   \<and> strip_file_name ''x.consensus@1.tsv'' = ([], Inr ''consensus@1'')"
proof -
  have first: "filter P (pre @ e # post) = e # filter P post"
    if "\<forall>s \<in> set pre. \<not> P s" "P e" for P :: "string \<Rightarrow> bool" and pre e post
    using that by (induction pre) auto
  have a: "contains ''seqwish.og'' name \<longrightarrow> strip_file_name name = ([], Inr ''seqwish'')"
    by (simp add: strip_file_name_def)
  have b: "\<not> contains ''seqwish.og'' name \<and> contains ''smooth'' name
        \<longrightarrow> strip_file_name name = ([], Inr ''smooth'')"
    by (simp add: strip_file_name_def)
  have c: "\<not> contains ''seqwish.og'' name \<and> \<not> contains ''smooth'' name
        \<and> split (CHR ''.'') name = pre @ e # post
        \<and> (\<forall>s \<in> set pre. \<not> contains ''consensus@'' s) \<and> contains ''consensus@'' e
        \<longrightarrow> strip_file_name name = ([], Inr e)"
    by (simp add: strip_file_name_def first)
  have d: "strip_file_name ''sample.seqwish.og.tsv'' = ([], Inr ''seqwish'')"
    by (simp add: strip_file_name_def)
  have e: "strip_file_name ''sample.smooth.fa.tsv'' = ([], Inr ''smooth'')"
    by (simp add: strip_file_name_def)
  have f: "strip_file_name ''x.consensus@1.tsv'' = ([], Inr ''consensus@1'')"
    by (simp add: strip_file_name_def)
  from a b c d e f show ?thesis by blast
qed

theorem strip_file_name_spec_witness:
  "contains ''seqwish.og'' ''sample.seqwish.og.tsv''
   \<and> strip_file_name ''sample.seqwish.og.tsv'' = ([], Inr ''seqwish'')
   \<and> \<not> contains ''seqwish.og'' ''sample.smooth.fa.tsv''
   \<and> contains ''smooth'' ''sample.smooth.fa.tsv''
   \<and> strip_file_name ''sample.smooth.fa.tsv'' = ([], Inr ''smooth'')
   \<and> \<not> contains ''seqwish.og'' ''x.consensus@1.tsv''
   \<and> \<not> contains ''smooth'' ''x.consensus@1.tsv''
   \<and> split (CHR ''.'') ''x.consensus@1.tsv'' = [''x''] @ ''consensus@1'' # [''tsv'']
   \<and> \<not> contains ''consensus@'' ''x''
   \<and> contains ''consensus@'' ''consensus@1''
   \<and> strip_file_name ''x.consensus@1.tsv'' = ([], Inr ''consensus@1'')"
proof -
  have h1: "contains ''seqwish.og'' ''sample.seqwish.og.tsv''" by simp
  have h2: "\<not> contains ''seqwish.og'' ''sample.smooth.fa.tsv''
            \<and> contains ''smooth'' ''sample.smooth.fa.tsv''" by simp
  have h3: "\<not> contains ''seqwish.og'' ''x.consensus@1.tsv''
            \<and> \<not> contains ''smooth'' ''x.consensus@1.tsv''
            \<and> split (CHR ''.'') ''x.consensus@1.tsv'' = [''x''] @ ''consensus@1'' # [''tsv'']
            \<and> (\<forall>s \<in> set [''x'']. \<not> contains ''consensus@'' s)
            \<and> contains ''consensus@'' ''consensus@1''" by simp
  from h1 strip_file_name_spec [of "''sample.seqwish.og.tsv''"]
  have r1: "strip_file_name ''sample.seqwish.og.tsv'' = ([], Inr ''seqwish'')" by blast
  from h2 strip_file_name_spec [of "''sample.smooth.fa.tsv''"]
  have r2: "strip_file_name ''sample.smooth.fa.tsv'' = ([], Inr ''smooth'')" by blast
  from h3 strip_file_name_spec [of "''x.consensus@1.tsv''" "[''x'']" "''consensus@1''" "[''tsv'']"]
  have r3: "strip_file_name ''x.consensus@1.tsv'' = ([], Inr ''consensus@1'')" by blast
  from h1 h2 h3 r1 r2 r3 show ?thesis by simp
qed

text \<open>
  Claim C3. A file name that contains neither \<open>seqwish.og\<close> nor \<open>smooth\<close> and has no
  segment between dots containing \<open>consensus@\<close> makes the derivation log the error
  message about the unknown file name and leave through \<^verbatim>\<open>sys.exit(1)\<close>; it returns
  no identifier.
\<close>

theorem strip_file_name_unknown:
  assumes "\<not> contains ''seqwish.og'' name"
    and "\<not> contains ''smooth'' name"
    and "\<forall>seg \<in> set (split (CHR ''.'') name). \<not> contains ''consensus@'' seg"
  shows "strip_file_name name = ([unknown_file_name_msg], Inl (SystemExit 1))
         \<and> (\<forall>v. snd (strip_file_name name) \<noteq> Inr v)"
proof -
  from assms(3) have "filter (contains ''consensus@'') (split (CHR ''.'') name) = []"
    by (simp add: filter_empty_conv)
  with assms(1,2) show ?thesis
    by (simp add: strip_file_name_def)
qed

theorem strip_file_name_unknown_witness:
  "\<not> contains ''seqwish.og'' ''random_name.tsv''
   \<and> \<not> contains ''smooth'' ''random_name.tsv''
   \<and> split (CHR ''.'') ''random_name.tsv'' = [''random_name'', ''tsv'']
   \<and> \<not> contains ''consensus@'' ''random_name''
   \<and> \<not> contains ''consensus@'' ''tsv''
   \<and> strip_file_name ''random_name.tsv''
       = ([''Unknown file name: File name must either contain seqwish, smooth or consensus@!''],
          Inl (SystemExit 1))"
proof -
  have h1: "\<not> contains ''seqwish.og'' ''random_name.tsv''" by simp
  have h2: "\<not> contains ''smooth'' ''random_name.tsv''" by simp
  have h3: "\<forall>seg \<in> set (split (CHR ''.'') ''random_name.tsv''). \<not> contains ''consensus@'' seg"
    by simp
  from strip_file_name_unknown [OF h1 h2 h3] h1 h2 h3 show ?thesis
    by (simp add: unknown_file_name_msg_def)
qed

subsection \<open>Extraction\<close>

lemma bind_err_simps [simp]:
  "bind_err (Inl e) k = Inl e"
  "bind_err (Inr x) k = k x"
  by (simp_all add: bind_err_def)

lemma bind_err_Inr_iff: "bind_err m k = Inr y \<longleftrightarrow> (\<exists>x. m = Inr x \<and> k x = Inr y)"
  by (cases m) simp_all

lemma bind_err_Inl_iff:
  "bind_err m k = Inl e \<longleftrightarrow> m = Inl e \<or> (\<exists>x. m = Inr x \<and> k x = Inl e)"
  by (cases m) simp_all

lemma get_Inr_iff: "get xs i = Inr x \<longleftrightarrow> i < length xs \<and> x = xs ! i"
  by (auto simp: get_def)

lemma get_Inl_iff: "get xs i = Inl e \<longleftrightarrow> length xs \<le> i \<and> e = IndexError"
  by (auto simp: get_def)

lemma get_in_range [simp]: "i < length xs \<Longrightarrow> get xs i = Inr (xs ! i)"
  by (simp add: get_def)

lemma get_out_of_range [simp]: "length xs \<le> i \<Longrightarrow> get xs i = Inl IndexError"
  by (simp add: get_def)

lemma to_float_Inr_iff: "to_float flt s = Inr v \<longleftrightarrow> flt s = Some v"
  by (simp add: to_float_def split: option.splits)

lemma to_float_Inl_iff: "to_float flt s = Inl e \<longleftrightarrow> flt s = None \<and> e = ValueError"
  by (auto simp: to_float_def split: option.splits)

lemma float_at_Inr_iff:
  "float_at flt xs i = Inr v \<longleftrightarrow> i < length xs \<and> flt (xs ! i) = Some v"
  by (auto simp: float_at_def bind_err_Inr_iff get_Inr_iff to_float_Inr_iff)

lemma float_at_Inl_iff:
  "float_at flt xs i = Inl e \<longleftrightarrow>
     length xs \<le> i \<and> e = IndexError \<or> i < length xs \<and> flt (xs ! i) = None \<and> e = ValueError"
  by (auto simp: float_at_def bind_err_Inl_iff get_Inr_iff get_Inl_iff to_float_Inl_iff)

lemma general_stats_Inr_iff:
  "general_stats flt stats = Inr g \<longleftrightarrow>
     4 \<le> length stats \<and> flt (stats ! 0) = Some (Length g) \<and> flt (stats ! 1) = Some (Nodes g)
     \<and> flt (stats ! 2) = Some (Edges g) \<and> flt (stats ! 3) = Some (Paths g)"
  by (cases g) (auto simp: general_stats_def bind_err_Inr_iff float_at_Inr_iff)

lemma general_stats_Inl: "general_stats flt stats = Inl e \<Longrightarrow> FormatError e"
  by (auto simp: general_stats_def bind_err_Inl_iff float_at_Inl_iff FormatError_def)

lemma general_stats_fails:
  assumes "length stats < 4 \<or> (\<exists>i<4. i < length stats \<and> flt (stats ! i) = None)"
  shows "\<exists>e. general_stats flt stats = Inl e \<and> FormatError e"
proof (cases "general_stats flt stats")
  case (Inl e)
  then show ?thesis by (simp add: general_stats_Inl)
next
  case (Inr g)
  then have ok: "4 \<le> length stats" "flt (stats ! 0) \<noteq> None" "flt (stats ! 1) \<noteq> None"
    "flt (stats ! 2) \<noteq> None" "flt (stats ! 3) \<noteq> None"
    by (simp_all add: general_stats_Inr_iff)
  from assms ok(1) obtain i where i: "i < 4" "flt (stats ! i) = None" by auto
  then have "i = 0 \<or> i = 1 \<or> i = 2 \<or> i = 3" by arith
  with i(2) ok show ?thesis by auto
qed

lemma link_stats_eq:
  "link_stats xs =
     (if 4 \<le> length xs
      then Inr \<lparr>Path = xs ! 0, In_node_space = xs ! 1, In_nucleotide_space = xs ! 2,
                Num_links_considered = xs ! 3\<rparr>
      else Inl IndexError)"
  by (auto simp: link_stats_def get_def bind_err_def)

lemma distance_stats_eq:
  "distance_stats xs =
     (if 7 \<le> length xs
      then Inr \<lparr>dPath = xs ! 0, dIn_node_space = xs ! 1, dIn_nucleotide_space = xs ! 2,
                dNodes = xs ! 3, dNucleotides = xs ! 4, dNum_penalties = xs ! 5,
                dNum_penalties_different_orientation = xs ! 6\<rparr>
      else Inl IndexError)"
  by (auto simp: distance_stats_def get_def bind_err_def)

lemma compress_stats_data_Inl:
  "compress_stats_data flt name stats mll sopnd = Inl e \<Longrightarrow> FormatError e"
  by (auto simp: compress_stats_data_def bind_err_Inl_iff link_stats_eq distance_stats_eq
        FormatError_def dest: general_stats_Inl split: if_splits)

lemma compress_stats_data_Inr:
  assumes "general_stats flt stats = Inr g" "4 \<le> length mll" "7 \<le> length sopnd"
  shows "compress_stats_data flt name stats mll sopnd =
     Inr [(name, \<lparr>General_stats = g,
        Mean_links_length = \<lparr>Path = mll ! 0, In_node_space = mll ! 1,
            In_nucleotide_space = mll ! 2, Num_links_considered = mll ! 3\<rparr>,
        Sum_of_path_nodes_distances = \<lparr>dPath = sopnd ! 0, dIn_node_space = sopnd ! 1,
            dIn_nucleotide_space = sopnd ! 2, dNodes = sopnd ! 3, dNucleotides = sopnd ! 4,
            dNum_penalties = sopnd ! 5, dNum_penalties_different_orientation = sopnd ! 6\<rparr>\<rparr>)]"
  using assms by (simp add: compress_stats_data_def link_stats_eq distance_stats_eq)

lemma compress_stats_data_Inr_iff:
  "(\<exists>d. compress_stats_data flt name stats mll sopnd = Inr d) \<longleftrightarrow>
     (\<exists>g. general_stats flt stats = Inr g) \<and> 4 \<le> length mll \<and> 7 \<le> length sopnd"
  by (auto simp: compress_stats_data_def bind_err_Inr_iff link_stats_eq distance_stats_eq
        split: if_splits)

lemma parse_success:
  assumes "8 \<le> length (splitlines (r_f rc))"
    and "general_stats flt (split TAB (splitlines (r_f rc) ! 1)) = Inr g"
    and "4 \<le> length (split TAB (splitlines (r_f rc) ! 4))"
    and "7 \<le> length (split TAB (splitlines (r_f rc) ! 7))"
  shows "parse_odgi_stats_report flt rc m =
    (None, AList.update (r_fn rc)
       \<lparr>General_stats = g,
        Mean_links_length =
          \<lparr>Path = split TAB (splitlines (r_f rc) ! 4) ! 0,
           In_node_space = split TAB (splitlines (r_f rc) ! 4) ! 1,
           In_nucleotide_space = split TAB (splitlines (r_f rc) ! 4) ! 2,
           Num_links_considered = split TAB (splitlines (r_f rc) ! 4) ! 3\<rparr>,
        Sum_of_path_nodes_distances =
          \<lparr>dPath = split TAB (splitlines (r_f rc) ! 7) ! 0,
           dIn_node_space = split TAB (splitlines (r_f rc) ! 7) ! 1,
           dIn_nucleotide_space = split TAB (splitlines (r_f rc) ! 7) ! 2,
           dNodes = split TAB (splitlines (r_f rc) ! 7) ! 3,
           dNucleotides = split TAB (splitlines (r_f rc) ! 7) ! 4,
           dNum_penalties = split TAB (splitlines (r_f rc) ! 7) ! 5,
           dNum_penalties_different_orientation = split TAB (splitlines (r_f rc) ! 7) ! 6\<rparr>\<rparr>
       m)"
  using assms
  by (simp add: parse_odgi_stats_report_def Let_def compress_stats_data_Inr dict_update_def)

lemma parse_failure:
  assumes "parse_odgi_stats_report flt rc m = (Some e, m')"
  shows "m' = m \<and> FormatError e"
  using assms
  by (auto simp: parse_odgi_stats_report_def Let_def bind_err_Inl_iff get_Inl_iff
        FormatError_def split: sum.splits dest: compress_stats_data_Inl)

lemma parse_fails_iff:
  "(\<exists>e. parse_odgi_stats_report flt rc m = (Some e, m)) \<longleftrightarrow>
     \<not> (8 \<le> length (splitlines (r_f rc))
        \<and> (\<exists>g. general_stats flt (split TAB (splitlines (r_f rc) ! 1)) = Inr g)
        \<and> 4 \<le> length (split TAB (splitlines (r_f rc) ! 4))
        \<and> 7 \<le> length (split TAB (splitlines (r_f rc) ! 7)))"
proof (cases "8 \<le> length (splitlines (r_f rc))")
  case True
  then have g: "get (splitlines (r_f rc)) 1 = Inr (splitlines (r_f rc) ! 1)"
    "get (splitlines (r_f rc)) 4 = Inr (splitlines (r_f rc) ! 4)"
    "get (splitlines (r_f rc)) 7 = Inr (splitlines (r_f rc) ! 7)"
    by simp_all
  show ?thesis
    using True compress_stats_data_Inr_iff
      [of flt "r_fn rc" "split TAB (splitlines (r_f rc) ! 1)"
        "split TAB (splitlines (r_f rc) ! 4)" "split TAB (splitlines (r_f rc) ! 7)"]
    by (auto simp: parse_odgi_stats_report_def Let_def g split: sum.splits)
next
  case False
  then have "get (splitlines (r_f rc)) 7 = Inl IndexError" by simp
  then have "bind_err (get (splitlines (r_f rc)) 1) (\<lambda>l1.
           bind_err (get (splitlines (r_f rc)) 4) (\<lambda>l4.
           bind_err (get (splitlines (r_f rc)) 7) (\<lambda>l7.
             compress_stats_data flt (r_fn rc) (split TAB l1) (split TAB l4) (split TAB l7))))
         = Inl IndexError"
    by (auto simp: bind_err_def get_def split: sum.splits)
  with False show ?thesis
    by (simp add: parse_odgi_stats_report_def Let_def)
qed

text \<open>Texts written line by line and rows written field by field are read back as they
  were written.\<close>

lemma splitlines_line:
  assumes "\<forall>c \<in> set l. \<not> is_linebreak c"
  shows "splitlines (l @ LF # rest) = l # splitlines rest"
  using assms
proof (induction l)
  case Nil
  show ?case by (cases rest) (simp_all add: is_linebreak_def LF_def CR_def)
next
  case (Cons c l)
  then have c: "\<not> is_linebreak c" and ih: "splitlines (l @ LF # rest) = l # splitlines rest"
    by simp_all
  obtain d ds where tl: "l @ LF # rest = d # ds" by (cases "l @ LF # rest") simp_all
  from c have "c \<noteq> CR" by (auto simp: is_linebreak_def CR_def)
  with c ih tl show ?case by simp
qed

lemma splitlines_unlines:
  "\<forall>l \<in> set ls. \<forall>c \<in> set l. \<not> is_linebreak c \<Longrightarrow> splitlines (unlines ls) = ls"
  by (induction ls) (simp_all add: unlines_def splitlines_line)

lemma split_field:
  assumes "sep \<notin> set x"
  shows "split sep (x @ sep # rest) = x # split sep rest"
  using assms by (induction x) auto

lemma split_last_field: "sep \<notin> set x \<Longrightarrow> split sep x = [x]"
  by (induction x) auto

lemma split_tsv:
  "xs \<noteq> [] \<Longrightarrow> \<forall>x \<in> set xs. TAB \<notin> set x \<Longrightarrow> split TAB (tsv xs) = xs"
  by (induction xs rule: tsv.induct) (simp_all add: split_field split_last_field)

lemma report_lines_nth:
  "length (report_lines a b c) = 8"
  "report_lines a b c ! 1 = tsv a"
  "report_lines a b c ! Suc 0 = tsv a"
  "report_lines a b c ! 4 = tsv b"
  "report_lines a b c ! 7 = tsv c"
  by (simp_all add: report_lines_def)

lemma decimal_float_values:
  "decimal_float ''8778'' = Some 8778"
  "decimal_float ''168'' = Some 168"
  "decimal_float ''243'' = Some 243"
  "decimal_float ''35'' = Some 35"
  "decimal_float ''9.75053'' = Some (975053 / 100000)"
  "decimal_float ''497.321'' = Some (497321 / 1000)"
  "decimal_float ''20.0686'' = Some (200686 / 10000)"
  "decimal_float ''19.5609'' = Some (195609 / 10000)"
  "decimal_float ''many'' = None"
  "decimal_float ''NA'' = None"
  by (simp_all add: decimal_float_def is_digit_def digits_value_def)

lemma example_record_lines:
  "splitlines (r_f example_record) = report_lines
     [''8778'', ''168'', ''243'', ''35'']
     [''all_paths'', ''9.75053'', ''497.321'', ''942'']
     [''all_paths'', ''20.0686'', ''19.5609'', ''977'', ''51365'', ''90'', ''0'']"
  unfolding example_record_def RawRecord.simps
  by (rule splitlines_unlines) (simp add: report_lines_def TAB_def is_linebreak_def)

lemma example_record_rows:
  "length (splitlines (r_f example_record)) = 8"
  "split TAB (splitlines (r_f example_record) ! 1) = [''8778'', ''168'', ''243'', ''35'']"
  "split TAB (splitlines (r_f example_record) ! 4)
     = [''all_paths'', ''9.75053'', ''497.321'', ''942'']"
  "split TAB (splitlines (r_f example_record) ! 7)
     = [''all_paths'', ''20.0686'', ''19.5609'', ''977'', ''51365'', ''90'', ''0'']"
  by (simp_all add: example_record_lines report_lines_nth split_tsv)
    (simp_all add: TAB_def)

text \<open>
  Claim C1. A record whose text has at least eight lines, at least four fields on line 1
  of which the first four are numbers, at least four fields on line 4 and at least seven
  on line 7 is extracted without error: the map gets, under the file name of the record,
  a report whose four general stats are the conversions of the first four fields of
  line 1.
\<close>

theorem extraction_general_stats:
  assumes "8 \<le> length (splitlines (r_f rc))"
    and "split TAB (splitlines (r_f rc) ! 1) = stats"
    and "4 \<le> length stats"
    and "flt (stats ! 0) = Some a" and "flt (stats ! 1) = Some b"
    and "flt (stats ! 2) = Some c" and "flt (stats ! 3) = Some d"
    and "4 \<le> length (split TAB (splitlines (r_f rc) ! 4))"
    and "7 \<le> length (split TAB (splitlines (r_f rc) ! 7))"
  shows "\<exists>rep. parse_odgi_stats_report flt rc m = (None, AList.update (r_fn rc) rep m)
           \<and> map_of (snd (parse_odgi_stats_report flt rc m)) (r_fn rc) = Some rep
           \<and> General_stats rep = \<lparr>Length = a, Nodes = b, Edges = c, Paths = d\<rparr>"
proof -
  from assms(2-7)
  have g: "general_stats flt (split TAB (splitlines (r_f rc) ! 1))
             = Inr \<lparr>Length = a, Nodes = b, Edges = c, Paths = d\<rparr>"
    by (simp add: general_stats_Inr_iff)
  show ?thesis
    unfolding parse_success [OF assms(1) g assms(8,9)]
    by (simp add: update_conv')
qed

theorem extraction_general_stats_witness:
  "8 \<le> length (splitlines (r_f example_record))
   \<and> split TAB (splitlines (r_f example_record) ! 1) = [''8778'', ''168'', ''243'', ''35'']
   \<and> decimal_float ''8778'' = Some 8778 \<and> decimal_float ''168'' = Some 168
   \<and> decimal_float ''243'' = Some 243 \<and> decimal_float ''35'' = Some 35
   \<and> 4 \<le> length (split TAB (splitlines (r_f example_record) ! 4))
   \<and> 7 \<le> length (split TAB (splitlines (r_f example_record) ! 7))
   \<and> (\<exists>rep. parse_odgi_stats_report decimal_float example_record []
                = (None, [(''x.seqwish.og.tsv'', rep)])
          \<and> General_stats rep = \<lparr>Length = 8778, Nodes = 168, Edges = 243, Paths = 35\<rparr>)"
proof -
  have h1: "8 \<le> length (splitlines (r_f example_record))"
    by (simp add: example_record_rows)
  have h2: "split TAB (splitlines (r_f example_record) ! 1) = [''8778'', ''168'', ''243'', ''35'']"
    by (rule example_record_rows)
  have h3: "4 \<le> length [''8778'', ''168'', ''243'', ''35'']" by simp
  have f0: "decimal_float ([''8778'', ''168'', ''243'', ''35''] ! 0) = Some 8778"
    and f1: "decimal_float ([''8778'', ''168'', ''243'', ''35''] ! 1) = Some 168"
    and f2: "decimal_float ([''8778'', ''168'', ''243'', ''35''] ! 2) = Some 243"
    and f3: "decimal_float ([''8778'', ''168'', ''243'', ''35''] ! 3) = Some 35"
    by (simp_all add: decimal_float_values)
  have h4: "4 \<le> length (split TAB (splitlines (r_f example_record) ! 4))"
    and h7: "7 \<le> length (split TAB (splitlines (r_f example_record) ! 7))"
    by (simp_all add: example_record_rows)
  have fn: "r_fn example_record = ''x.seqwish.og.tsv''"
    by (simp add: example_record_def)
  from extraction_general_stats [OF h1 h2 h3 f0 f1 f2 f3 h4 h7, of "[]"]
  have "\<exists>rep. parse_odgi_stats_report decimal_float example_record []
                = (None, [(''x.seqwish.og.tsv'', rep)])
          \<and> General_stats rep = \<lparr>Length = 8778, Nodes = 168, Edges = 243, Paths = 35\<rparr>"
    by (auto simp: fn)
  with h1 h2 h4 h7 decimal_float_values(1-4) show ?thesis
    by blast
qed

lemma short_record_lines:
  "splitlines (r_f short_record) = take 5 (report_lines
     [''8778'', ''168'', ''243'', ''35'']
     [''all_paths'', ''9.75053'', ''497.321'', ''942'']
     [''all_paths'', ''20.0686'', ''19.5609'', ''977'', ''51365'', ''90'', ''0''])"
  unfolding short_record_def RawRecord.simps
  by (rule splitlines_unlines) (simp add: report_lines_def TAB_def is_linebreak_def)

lemma nonnumeric_stats_record_lines:
  "splitlines (r_f nonnumeric_stats_record) = report_lines
     [''8778'', ''many'', ''243'', ''35'']
     [''all_paths'', ''9.75053'', ''497.321'', ''942'']
     [''all_paths'', ''20.0686'', ''19.5609'', ''977'', ''51365'', ''90'', ''0'']"
  unfolding nonnumeric_stats_record_def RawRecord.simps
  by (rule splitlines_unlines) (simp add: report_lines_def TAB_def is_linebreak_def)

lemma nonnumeric_stats_record_rows:
  "length (splitlines (r_f nonnumeric_stats_record)) = 8"
  "split TAB (splitlines (r_f nonnumeric_stats_record) ! 1) = [''8778'', ''many'', ''243'', ''35'']"
  by (simp_all add: nonnumeric_stats_record_lines report_lines_nth split_tsv)
    (simp_all add: TAB_def)

text \<open>
  Claim C6. When the text of a record has fewer than eight lines, or one of the first
  four fields of line 1 is not a number, extraction raises an index or value error and
  leaves the map as it was. In general a call either raises such an error and leaves
  the map unchanged, or stores one complete report under the file name of the record.
\<close>

theorem extraction_atomic:
  assumes "length (splitlines (r_f rc)) < 8
           \<or> (1 < length (splitlines (r_f rc))
               \<and> (\<exists>i<4. i < length (split TAB (splitlines (r_f rc) ! 1))
                     \<and> flt (split TAB (splitlines (r_f rc) ! 1) ! i) = None))"
  shows "(\<exists>e. parse_odgi_stats_report flt rc m = (Some e, m) \<and> FormatError e)
         \<and> ((\<exists>e. parse_odgi_stats_report flt rc' m = (Some e, m) \<and> FormatError e)
             \<or> (\<exists>rep. parse_odgi_stats_report flt rc' m
                         = (None, AList.update (r_fn rc') rep m)))"
proof
  from assms
  have "\<not> (8 \<le> length (splitlines (r_f rc))
        \<and> (\<exists>g. general_stats flt (split TAB (splitlines (r_f rc) ! 1)) = Inr g)
        \<and> 4 \<le> length (split TAB (splitlines (r_f rc) ! 4))
        \<and> 7 \<le> length (split TAB (splitlines (r_f rc) ! 7)))"
  proof
    assume "length (splitlines (r_f rc)) < 8"
    then show ?thesis by simp
  next
    assume "1 < length (splitlines (r_f rc))
               \<and> (\<exists>i<4. i < length (split TAB (splitlines (r_f rc) ! 1))
                     \<and> flt (split TAB (splitlines (r_f rc) ! 1) ! i) = None)"
    then have "\<exists>e. general_stats flt (split TAB (splitlines (r_f rc) ! 1)) = Inl e
                  \<and> FormatError e"
      by (intro general_stats_fails) blast
    then show ?thesis by auto
  qed
  then obtain e where e: "parse_odgi_stats_report flt rc m = (Some e, m)"
    using parse_fails_iff [of flt rc m] by blast
  with parse_failure [OF e]
  show "\<exists>e. parse_odgi_stats_report flt rc m = (Some e, m) \<and> FormatError e" by blast
next
  show "(\<exists>e. parse_odgi_stats_report flt rc' m = (Some e, m) \<and> FormatError e)
        \<or> (\<exists>rep. parse_odgi_stats_report flt rc' m = (None, AList.update (r_fn rc') rep m))"
  proof (cases "\<exists>e. parse_odgi_stats_report flt rc' m = (Some e, m)")
    case True
    then obtain e where e: "parse_odgi_stats_report flt rc' m = (Some e, m)" ..
    with parse_failure [OF e] show ?thesis by blast
  next
    case False
    then obtain g where ok: "8 \<le> length (splitlines (r_f rc'))"
      "general_stats flt (split TAB (splitlines (r_f rc') ! 1)) = Inr g"
      "4 \<le> length (split TAB (splitlines (r_f rc') ! 4))"
      "7 \<le> length (split TAB (splitlines (r_f rc') ! 7))"
      using parse_fails_iff [of flt rc' m] by blast
    from parse_success [OF ok, of m] show ?thesis by blast
  qed
qed

theorem extraction_atomic_witness:
  "length (splitlines (r_f short_record)) < 8
   \<and> parse_odgi_stats_report decimal_float short_record [] = (Some IndexError, [])
   \<and> 1 < length (splitlines (r_f nonnumeric_stats_record))
   \<and> split TAB (splitlines (r_f nonnumeric_stats_record) ! 1) ! 1 = ''many''
   \<and> decimal_float ''many'' = None
   \<and> parse_odgi_stats_report decimal_float nonnumeric_stats_record [] = (Some ValueError, [])"
proof -
  have h1: "length (splitlines (r_f short_record)) < 8"
    by (simp add: short_record_lines report_lines_def)
  from extraction_atomic [of short_record decimal_float "[]"] h1
  obtain e where e: "parse_odgi_stats_report decimal_float short_record [] = (Some e, [])"
    by blast
  have "get (splitlines (r_f short_record)) 7 = Inl IndexError"
    using h1 by simp
  then have "e = IndexError"
    using e h1
    by (auto simp: parse_odgi_stats_report_def Let_def bind_err_def get_def
          split: sum.splits if_splits)
  with e have r1: "parse_odgi_stats_report decimal_float short_record [] = (Some IndexError, [])"
    by simp
  have h2: "1 < length (splitlines (r_f nonnumeric_stats_record))"
    by (simp add: nonnumeric_stats_record_rows)
  have h3: "split TAB (splitlines (r_f nonnumeric_stats_record) ! 1) ! 1 = ''many''"
    by (simp only: nonnumeric_stats_record_rows) simp
  have h4: "decimal_float ''many'' = None"
    by (rule decimal_float_values)
  have "\<exists>i<4. i < length (split TAB (splitlines (r_f nonnumeric_stats_record) ! 1))
           \<and> decimal_float (split TAB (splitlines (r_f nonnumeric_stats_record) ! 1) ! i) = None"
    by (rule exI [of _ 1]) (simp only: nonnumeric_stats_record_rows h4, simp add: h4)
  with extraction_atomic [of nonnumeric_stats_record decimal_float "[]"] h2
  obtain e' where e': "parse_odgi_stats_report decimal_float nonnumeric_stats_record []
                         = (Some e', [])"
    by blast
  have "general_stats decimal_float [''8778'', ''many'', ''243'', ''35''] = Inl ValueError"
    by (simp add: general_stats_def float_at_def to_float_def decimal_float_values)
  moreover have "split TAB (splitlines (r_f nonnumeric_stats_record) ! Suc 0)
                   = [''8778'', ''many'', ''243'', ''35'']"
    using nonnumeric_stats_record_rows(2) by simp
  ultimately have "e' = ValueError"
    using e'
    by (simp add: parse_odgi_stats_report_def Let_def nonnumeric_stats_record_rows(1)
          compress_stats_data_def split: sum.splits)
  with e' have r2: "parse_odgi_stats_report decimal_float nonnumeric_stats_record []
                     = (Some ValueError, [])"
    by simp
  from h1 r1 h2 h3 h4 r2 show ?thesis by blast
qed

lemma extra_fields_record_lines:
  "splitlines (r_f extra_fields_record) = report_lines
     [''8778'', ''168'', ''243'', ''35'', ''extra'']
     [''all_paths'', ''9.75053'', ''497.321'', ''942'', ''extra'']
     [''all_paths'', ''20.0686'', ''19.5609'', ''977'', ''51365'', ''90'', ''0'', ''extra'']"
  unfolding extra_fields_record_def RawRecord.simps
  by (rule splitlines_unlines) (simp add: report_lines_def TAB_def is_linebreak_def)

lemma extra_fields_record_rows:
  "length (splitlines (r_f extra_fields_record)) = 8"
  "split TAB (splitlines (r_f extra_fields_record) ! 1)
     = [''8778'', ''168'', ''243'', ''35'', ''extra'']"
  "split TAB (splitlines (r_f extra_fields_record) ! 4)
     = [''all_paths'', ''9.75053'', ''497.321'', ''942'', ''extra'']"
  "split TAB (splitlines (r_f extra_fields_record) ! 7)
     = [''all_paths'', ''20.0686'', ''19.5609'', ''977'', ''51365'', ''90'', ''0'', ''extra'']"
  by (simp_all add: extra_fields_record_lines report_lines_nth split_tsv)
    (simp_all add: TAB_def)

lemma few_fields_record_lines:
  "splitlines (r_f few_fields_record) = report_lines
     [''8778'', ''168'', ''243'', ''35'']
     [''all_paths'', ''9.75053'', ''497.321'']
     [''all_paths'', ''20.0686'', ''19.5609'', ''977'', ''51365'', ''90'', ''0'']"
  unfolding few_fields_record_def RawRecord.simps
  by (rule splitlines_unlines) (simp add: report_lines_def TAB_def is_linebreak_def)

lemma few_fields_record_rows:
  "length (splitlines (r_f few_fields_record)) = 8"
  "split TAB (splitlines (r_f few_fields_record) ! 4) = [''all_paths'', ''9.75053'', ''497.321'']"
  by (simp_all add: few_fields_record_lines report_lines_nth split_tsv)
    (simp_all add: TAB_def)

text \<open>
  Claim C7, as stated, fails: a record with five fields on line 1, five on line 4 and
  eight on line 7 is extracted without error.
\<close>

theorem extraction_extra_fields_counterexample:
  "length (splitlines (r_f extra_fields_record)) = 8
   \<and> length (split TAB (splitlines (r_f extra_fields_record) ! 1)) = 5
   \<and> length (split TAB (splitlines (r_f extra_fields_record) ! 4)) = 5
   \<and> length (split TAB (splitlines (r_f extra_fields_record) ! 7)) = 8
   \<and> fst (parse_odgi_stats_report decimal_float extra_fields_record []) = None"
proof -
  have l: "8 \<le> length (splitlines (r_f extra_fields_record))"
    by (simp add: extra_fields_record_rows)
  have g: "general_stats decimal_float (split TAB (splitlines (r_f extra_fields_record) ! 1))
             = Inr \<lparr>Length = 8778, Nodes = 168, Edges = 243, Paths = 35\<rparr>"
    by (simp only: extra_fields_record_rows)
      (simp add: general_stats_Inr_iff decimal_float_values)
  have l4: "4 \<le> length (split TAB (splitlines (r_f extra_fields_record) ! 4))"
    and l7: "7 \<le> length (split TAB (splitlines (r_f extra_fields_record) ! 7))"
    by (simp_all only: extra_fields_record_rows) simp_all
  have "fst (parse_odgi_stats_report decimal_float extra_fields_record []) = None"
    by (simp only: parse_success [OF l g l4 l7] fst_conv)
  then show ?thesis
    by (simp only: extra_fields_record_rows) simp
qed

text \<open>
  Claim C7, amended. Extraction raises an index or value error whenever one of the lines
  1, 4 and 7 is present and splits on tabs into fewer fields than expected (4, 4 and 7).
  More fields than expected do not make it fail: it succeeds whenever the text has at
  least eight lines, line 1 has at least four fields of which the first four are
  numbers, line 4 has at least four fields and line 7 at least seven.
\<close>

theorem extraction_field_counts:
  "((1 < length (splitlines (r_f rc)) \<and> length (split TAB (splitlines (r_f rc) ! 1)) < 4)
     \<or> (4 < length (splitlines (r_f rc)) \<and> length (split TAB (splitlines (r_f rc) ! 4)) < 4)
     \<or> (7 < length (splitlines (r_f rc)) \<and> length (split TAB (splitlines (r_f rc) ! 7)) < 7)
    \<longrightarrow> (\<exists>e. parse_odgi_stats_report flt rc m = (Some e, m) \<and> FormatError e))
   \<and> (8 \<le> length (splitlines (r_f rc))
       \<and> 4 \<le> length (split TAB (splitlines (r_f rc) ! 1))
       \<and> flt (split TAB (splitlines (r_f rc) ! 1) ! 0) \<noteq> None
       \<and> flt (split TAB (splitlines (r_f rc) ! 1) ! 1) \<noteq> None
       \<and> flt (split TAB (splitlines (r_f rc) ! 1) ! 2) \<noteq> None
       \<and> flt (split TAB (splitlines (r_f rc) ! 1) ! 3) \<noteq> None
       \<and> 4 \<le> length (split TAB (splitlines (r_f rc) ! 4))
       \<and> 7 \<le> length (split TAB (splitlines (r_f rc) ! 7))
    \<longrightarrow> fst (parse_odgi_stats_report flt rc m) = None)"
proof (intro conjI impI)
  assume few: "(1 < length (splitlines (r_f rc))
        \<and> length (split TAB (splitlines (r_f rc) ! 1)) < 4)
     \<or> (4 < length (splitlines (r_f rc)) \<and> length (split TAB (splitlines (r_f rc) ! 4)) < 4)
     \<or> (7 < length (splitlines (r_f rc)) \<and> length (split TAB (splitlines (r_f rc) ! 7)) < 7)"
  have "\<not> (\<exists>g. general_stats flt (split TAB (splitlines (r_f rc) ! 1)) = Inr g)"
    if "length (split TAB (splitlines (r_f rc) ! 1)) < 4"
    using that by (simp add: general_stats_Inr_iff)
  with few
  have "\<not> (8 \<le> length (splitlines (r_f rc))
        \<and> (\<exists>g. general_stats flt (split TAB (splitlines (r_f rc) ! 1)) = Inr g)
        \<and> 4 \<le> length (split TAB (splitlines (r_f rc) ! 4))
        \<and> 7 \<le> length (split TAB (splitlines (r_f rc) ! 7)))"
    by auto
  then obtain e where e: "parse_odgi_stats_report flt rc m = (Some e, m)"
    using parse_fails_iff [of flt rc m] by blast
  with parse_failure [OF e]
  show "\<exists>e. parse_odgi_stats_report flt rc m = (Some e, m) \<and> FormatError e" by blast
next
  assume ok: "8 \<le> length (splitlines (r_f rc))
       \<and> 4 \<le> length (split TAB (splitlines (r_f rc) ! 1))
       \<and> flt (split TAB (splitlines (r_f rc) ! 1) ! 0) \<noteq> None
       \<and> flt (split TAB (splitlines (r_f rc) ! 1) ! 1) \<noteq> None
       \<and> flt (split TAB (splitlines (r_f rc) ! 1) ! 2) \<noteq> None
       \<and> flt (split TAB (splitlines (r_f rc) ! 1) ! 3) \<noteq> None
       \<and> 4 \<le> length (split TAB (splitlines (r_f rc) ! 4))
       \<and> 7 \<le> length (split TAB (splitlines (r_f rc) ! 7))"
  then obtain a b c d where
    "flt (split TAB (splitlines (r_f rc) ! 1) ! 0) = Some a"
    "flt (split TAB (splitlines (r_f rc) ! 1) ! 1) = Some b"
    "flt (split TAB (splitlines (r_f rc) ! 1) ! 2) = Some c"
    "flt (split TAB (splitlines (r_f rc) ! 1) ! 3) = Some d"
    by auto
  with ok have g: "general_stats flt (split TAB (splitlines (r_f rc) ! 1))
             = Inr \<lparr>Length = a, Nodes = b, Edges = c, Paths = d\<rparr>"
    by (simp add: general_stats_Inr_iff)
  from ok have l: "8 \<le> length (splitlines (r_f rc))"
    and l4: "4 \<le> length (split TAB (splitlines (r_f rc) ! 4))"
    and l7: "7 \<le> length (split TAB (splitlines (r_f rc) ! 7))"
    by simp_all
  show "fst (parse_odgi_stats_report flt rc m) = None"
    by (simp only: parse_success [OF l g l4 l7] fst_conv)
qed

theorem extraction_field_counts_witness:
  "4 < length (splitlines (r_f few_fields_record))
   \<and> length (split TAB (splitlines (r_f few_fields_record) ! 4)) < 4
   \<and> fst (parse_odgi_stats_report decimal_float few_fields_record []) = Some IndexError
   \<and> snd (parse_odgi_stats_report decimal_float few_fields_record []) = []
   \<and> 8 \<le> length (splitlines (r_f extra_fields_record))
   \<and> 4 \<le> length (split TAB (splitlines (r_f extra_fields_record) ! 1))
   \<and> decimal_float (split TAB (splitlines (r_f extra_fields_record) ! 1) ! 0) \<noteq> None
   \<and> decimal_float (split TAB (splitlines (r_f extra_fields_record) ! 1) ! 1) \<noteq> None
   \<and> decimal_float (split TAB (splitlines (r_f extra_fields_record) ! 1) ! 2) \<noteq> None
   \<and> decimal_float (split TAB (splitlines (r_f extra_fields_record) ! 1) ! 3) \<noteq> None
   \<and> 4 \<le> length (split TAB (splitlines (r_f extra_fields_record) ! 4))
   \<and> 7 \<le> length (split TAB (splitlines (r_f extra_fields_record) ! 7))
   \<and> fst (parse_odgi_stats_report decimal_float extra_fields_record []) = None"
proof -
  have a1: "4 < length (splitlines (r_f few_fields_record))"
    and a2: "length (split TAB (splitlines (r_f few_fields_record) ! 4)) < 4"
    by (simp_all only: few_fields_record_rows) simp_all
  with extraction_field_counts [of few_fields_record decimal_float "[]"]
  obtain e where e: "parse_odgi_stats_report decimal_float few_fields_record [] = (Some e, [])"
    by blast
  have s0: "split TAB (splitlines (r_f few_fields_record) ! Suc 0) = [''8778'', ''168'', ''243'', ''35'']"
    by (simp add: few_fields_record_lines report_lines_nth split_tsv) (simp add: TAB_def)
  have "general_stats decimal_float [''8778'', ''168'', ''243'', ''35'']
          = Inr \<lparr>Length = 8778, Nodes = 168, Edges = 243, Paths = 35\<rparr>"
    by (simp add: general_stats_Inr_iff decimal_float_values)
  then have "e = IndexError"
    using e
    by (simp add: parse_odgi_stats_report_def Let_def few_fields_record_rows s0
          compress_stats_data_def link_stats_eq split: sum.splits)
  with e have r1: "fst (parse_odgi_stats_report decimal_float few_fields_record []) = Some IndexError"
    and r2: "snd (parse_odgi_stats_report decimal_float few_fields_record []) = []"
    by simp_all
  have b: "8 \<le> length (splitlines (r_f extra_fields_record))"
    "4 \<le> length (split TAB (splitlines (r_f extra_fields_record) ! 1))"
    "decimal_float (split TAB (splitlines (r_f extra_fields_record) ! 1) ! 0) \<noteq> None"
    "decimal_float (split TAB (splitlines (r_f extra_fields_record) ! 1) ! 1) \<noteq> None"
    "decimal_float (split TAB (splitlines (r_f extra_fields_record) ! 1) ! 2) \<noteq> None"
    "decimal_float (split TAB (splitlines (r_f extra_fields_record) ! 1) ! 3) \<noteq> None"
    "4 \<le> length (split TAB (splitlines (r_f extra_fields_record) ! 4))"
    "7 \<le> length (split TAB (splitlines (r_f extra_fields_record) ! 7))"
    by (simp_all only: extra_fields_record_rows) (simp_all add: decimal_float_values)
  with extraction_field_counts [of extra_fields_record decimal_float "[]"]
  have r3: "fst (parse_odgi_stats_report decimal_float extra_fields_record []) = None"
    by blast
  from a1 a2 r1 r2 b r3 show ?thesis by blast
qed

subsection \<open>The order of the loop of the series\<close>

lemma sorted_filenames_eq:
  "sorted_filenames ks = drop (length ks - 2) (sort ks) @ take (length ks - 2) (sort ks)"
  by (simp add: sorted_filenames_def Let_def)

lemma mset_sorted_filenames: "mset (sorted_filenames ks) = mset ks"
proof -
  have "mset (sorted_filenames ks)
          = mset (take (length ks - 2) (sort ks) @ drop (length ks - 2) (sort ks))"
    unfolding sorted_filenames_eq by (simp only: mset_append add.commute)
  then show ?thesis by simp
qed

lemma set_sorted_filenames: "set (sorted_filenames ks) = set ks"
  using mset_sorted_filenames [of ks] by (metis set_mset_mset)

lemma sorted_filenames_front:
  assumes "2 \<le> length ks"
  shows "take 2 (sorted_filenames ks) = drop (length ks - 2) (sort ks)"
    and "drop 2 (sorted_filenames ks) = take (length ks - 2) (sort ks)"
  using assms by (simp_all add: sorted_filenames_eq)

lemma sorted_filenames_small:
  assumes "length ks \<le> 2"
  shows "sorted_filenames ks = sort ks"
  using assms by (simp add: sorted_filenames_eq)

text \<open>
  Claim C4. The loop of the series runs over the file names of the map in this order:
  the names are sorted, and with at least two names the two greatest come first (the
  smaller of the two before the greater), followed by the other names in sorted order.
  For the names \<open>a.seqwish.og\<close>, \<open>b.smooth\<close> and \<open>c.consensus@1\<close> the order is
  \<open>b.smooth\<close>, \<open>c.consensus@1\<close>, \<open>a.seqwish.og\<close>.
\<close>

theorem series_iteration_order:
  "mset (sorted_filenames ks) = mset ks
   \<and> (2 \<le> length ks \<longrightarrow>
        length (take 2 (sorted_filenames ks)) = 2
        \<and> (\<forall>x \<in> set (take 2 (sorted_filenames ks)).
             \<forall>y \<in> set (drop 2 (sorted_filenames ks)). y \<le> x)
        \<and> sorted (take 2 (sorted_filenames ks))
        \<and> sorted (drop 2 (sorted_filenames ks))
        \<and> drop 2 (sorted_filenames ks) = take (length ks - 2) (sort ks))
   \<and> (set ks = {''a.seqwish.og'', ''b.smooth'', ''c.consensus@1''} \<and> length ks = 3 \<longrightarrow>
        sorted_filenames ks = [''b.smooth'', ''c.consensus@1'', ''a.seqwish.og''])"
proof (intro conjI impI)
  show "mset (sorted_filenames ks) = mset ks" by (rule mset_sorted_filenames)
next
  assume n: "2 \<le> length ks"
  have s: "sorted (take (length ks - 2) (sort ks) @ drop (length ks - 2) (sort ks))"
    by simp
  show "length (take 2 (sorted_filenames ks)) = 2"
    using n by (simp add: sorted_filenames_eq)
  show "\<forall>x \<in> set (take 2 (sorted_filenames ks)).
          \<forall>y \<in> set (drop 2 (sorted_filenames ks)). y \<le> x"
    unfolding sorted_filenames_front [OF n]
    using s unfolding sorted_append by blast
  show "sorted (take 2 (sorted_filenames ks))"
    unfolding sorted_filenames_front [OF n] using s unfolding sorted_append by blast
  show "sorted (drop 2 (sorted_filenames ks))"
    unfolding sorted_filenames_front [OF n] using s unfolding sorted_append by blast
  show "drop 2 (sorted_filenames ks) = take (length ks - 2) (sort ks)"
    by (rule sorted_filenames_front [OF n])
next
  assume a: "set ks = {''a.seqwish.og'', ''b.smooth'', ''c.consensus@1''} \<and> length ks = 3"
  have "distinct ks"
    using a by (simp add: card_distinct)
  have "sorted [''a.seqwish.og'', ''b.smooth'', ''c.consensus@1'']" by simp
  moreover have "distinct [''a.seqwish.og'', ''b.smooth'', ''c.consensus@1'']" by simp
  moreover have "set [''a.seqwish.og'', ''b.smooth'', ''c.consensus@1''] = set (sort ks)"
    using a by auto
  ultimately have "sort ks = [''a.seqwish.og'', ''b.smooth'', ''c.consensus@1'']"
    using \<open>distinct ks\<close>
    by (intro sorted_distinct_set_unique) simp_all
  with a show "sorted_filenames ks = [''b.smooth'', ''c.consensus@1'', ''a.seqwish.og'']"
    by (simp add: sorted_filenames_eq)
qed

theorem series_iteration_order_witness:
  "2 \<le> length [''c.consensus@1'', ''a.seqwish.og'', ''b.smooth'']
   \<and> set [''c.consensus@1'', ''a.seqwish.og'', ''b.smooth'']
       = {''a.seqwish.og'', ''b.smooth'', ''c.consensus@1''}
   \<and> length [''c.consensus@1'', ''a.seqwish.og'', ''b.smooth''] = 3
   \<and> sorted_filenames [''c.consensus@1'', ''a.seqwish.og'', ''b.smooth'']
       = [''b.smooth'', ''c.consensus@1'', ''a.seqwish.og'']
   \<and> take 2 (sorted_filenames [''c.consensus@1'', ''a.seqwish.og'', ''b.smooth''])
       = [''b.smooth'', ''c.consensus@1'']
   \<and> drop 2 (sorted_filenames [''c.consensus@1'', ''a.seqwish.og'', ''b.smooth''])
       = [''a.seqwish.og'']"
proof -
  have h1: "2 \<le> length [''c.consensus@1'', ''a.seqwish.og'', ''b.smooth'']" by simp
  have h2: "set [''c.consensus@1'', ''a.seqwish.og'', ''b.smooth'']
       = {''a.seqwish.og'', ''b.smooth'', ''c.consensus@1''}" by auto
  have h3: "length [''c.consensus@1'', ''a.seqwish.og'', ''b.smooth''] = 3" by simp
  from series_iteration_order [of "[''c.consensus@1'', ''a.seqwish.og'', ''b.smooth'']"] h2 h3
  have r: "sorted_filenames [''c.consensus@1'', ''a.seqwish.og'', ''b.smooth'']
       = [''b.smooth'', ''c.consensus@1'', ''a.seqwish.og'']"
    by blast
  from h1 h2 h3 r show ?thesis by simp
qed

text \<open>
  Claim C10. The reordering has no failing case. With fewer than two file names the loop
  of the series runs over the sorted names: over nothing for the empty map, where the
  four series are empty, and over the one name of a map with one file.
\<close>

theorem series_order_small_store:
  "(length ks < 2 \<longrightarrow> sorted_filenames ks = sort ks)
   \<and> (length m < 2 \<longrightarrow>
        plot_odgi_metrics flt m = metrics_rows flt m (sort (map fst m)) empty_series)
   \<and> plot_odgi_metrics flt [] = ([], Inr empty_series)
   \<and> sorted_filenames [k] = [k]"
  by (simp add: sorted_filenames_small plot_odgi_metrics_def)

theorem series_order_small_store_witness:
  "length [''x.seqwish.og.tsv''] < 2
   \<and> sorted_filenames [''x.seqwish.og.tsv''] = [''x.seqwish.og.tsv'']
   \<and> length ([] :: string list) < 2
   \<and> sorted_filenames [] = []"
proof -
  have h1: "length [''x.seqwish.og.tsv''] < 2" by simp
  have h2: "length ([] :: string list) < 2" by simp
  from series_order_small_store
    [of "[''x.seqwish.og.tsv'']" "[]" decimal_float "''x.seqwish.og.tsv''"] h1
  have r1: "sorted_filenames [''x.seqwish.og.tsv''] = [''x.seqwish.og.tsv'']" by simp
  from series_order_small_store [of "[]" "[]" decimal_float "''x.seqwish.og.tsv''"] h2
  have r2: "sorted_filenames [] = []" by simp
  from h1 h2 r1 r2 show ?thesis by blast
qed

subsection \<open>The loops of the table and of the series\<close>

lemma metrics_step_Inr_iff:
  "metrics_step flt fs uid acc = Inr acc' \<longleftrightarrow>
     (\<exists>a b c d.
        flt (In_node_space (Mean_links_length fs)) = Some a
        \<and> flt (In_nucleotide_space (Mean_links_length fs)) = Some b
        \<and> flt (dIn_node_space (Sum_of_path_nodes_distances fs)) = Some c
        \<and> flt (dIn_nucleotide_space (Sum_of_path_nodes_distances fs)) = Some d
        \<and> acc' = \<lparr>in_node_space_mean = AList.update uid a (in_node_space_mean acc),
                   in_nucleotide_space_mean = AList.update uid b (in_nucleotide_space_mean acc),
                   in_node_space_sum = AList.update uid c (in_node_space_sum acc),
                   in_nucleotide_space_sum = AList.update uid d (in_nucleotide_space_sum acc)\<rparr>)"
  by (cases acc) (auto simp: metrics_step_def Let_def bind_err_Inr_iff to_float_Inr_iff)

lemma metrics_step_Inl_iff:
  "metrics_step flt fs uid acc = Inl e \<longleftrightarrow>
     e = ValueError
     \<and> (flt (In_node_space (Mean_links_length fs)) = None
        \<or> flt (In_nucleotide_space (Mean_links_length fs)) = None
        \<or> flt (dIn_node_space (Sum_of_path_nodes_distances fs)) = None
        \<or> flt (dIn_nucleotide_space (Sum_of_path_nodes_distances fs)) = None)"
  by (auto simp: metrics_step_def Let_def bind_err_Inl_iff to_float_Inr_iff to_float_Inl_iff)

lemma metrics_rows_Cons_Inr:
  "metrics_rows flt m (k # ks) acc = (lg, Inr s) \<longleftrightarrow>
     (\<exists>fs g acc'. map_of m k = Some fs \<and> strip_file_name k = ([], Inr g)
        \<and> metrics_step flt fs g acc = Inr acc'
        \<and> metrics_rows flt m ks acc' = (lg, Inr s))"
  by (auto split: option.splits sum.splits prod.splits dest: strip_file_name_log)

lemma metrics_rows_untouched:
  assumes "metrics_rows flt m ks acc = (lg, Inr s)"
    and "\<forall>k \<in> set ks. snd (strip_file_name k) \<noteq> Inr g"
  shows "map_of (in_node_space_mean s) g = map_of (in_node_space_mean acc) g
       \<and> map_of (in_nucleotide_space_mean s) g = map_of (in_nucleotide_space_mean acc) g
       \<and> map_of (in_node_space_sum s) g = map_of (in_node_space_sum acc) g
       \<and> map_of (in_nucleotide_space_sum s) g = map_of (in_nucleotide_space_sum acc) g"
  using assms
proof (induction ks arbitrary: acc)
  case Nil
  then show ?case by simp
next
  case (Cons k ks)
  from Cons.prems(1) obtain fs g' acc' where
    "map_of m k = Some fs"
    and st: "strip_file_name k = ([], Inr g')"
    and step: "metrics_step flt fs g' acc = Inr acc'"
    and rest: "metrics_rows flt m ks acc' = (lg, Inr s)"
    unfolding metrics_rows_Cons_Inr by blast
  from Cons.prems(2) st have ne: "g' \<noteq> g" by auto
  from Cons.prems(2) have "\<forall>k \<in> set ks. snd (strip_file_name k) \<noteq> Inr g" by simp
  from Cons.IH [OF rest this] step ne show ?case
    by (auto simp: metrics_step_Inr_iff update_conv')
qed

lemma metrics_rows_last:
  assumes "metrics_rows flt m (ks1 @ k # ks2) acc = (lg, Inr s)"
    and "map_of m k = Some fs"
    and "strip_file_name k = (lg0, Inr g)"
    and "\<forall>k' \<in> set ks2. snd (strip_file_name k') \<noteq> Inr g"
  shows "map_of (in_node_space_mean s) g = flt (In_node_space (Mean_links_length fs))
       \<and> map_of (in_nucleotide_space_mean s) g
           = flt (In_nucleotide_space (Mean_links_length fs))
       \<and> map_of (in_node_space_sum s) g
           = flt (dIn_node_space (Sum_of_path_nodes_distances fs))
       \<and> map_of (in_nucleotide_space_sum s) g
           = flt (dIn_nucleotide_space (Sum_of_path_nodes_distances fs))
       \<and> map_of (in_node_space_mean s) g \<noteq> None
       \<and> map_of (in_nucleotide_space_mean s) g \<noteq> None
       \<and> map_of (in_node_space_sum s) g \<noteq> None
       \<and> map_of (in_nucleotide_space_sum s) g \<noteq> None"
  using assms(1)
proof (induction ks1 arbitrary: acc)
  case Nil
  then have "metrics_rows flt m (k # ks2) acc = (lg, Inr s)" by simp
  with assms(2,3) obtain acc' where
    step: "metrics_step flt fs g acc = Inr acc'"
    and rest: "metrics_rows flt m ks2 acc' = (lg, Inr s)"
    unfolding metrics_rows_Cons_Inr by auto
  from metrics_rows_untouched [OF rest assms(4)] step show ?case
    by (auto simp: metrics_step_Inr_iff update_conv')
next
  case (Cons k1 ks1)
  from Cons.prems have "metrics_rows flt m (k1 # (ks1 @ k # ks2)) acc = (lg, Inr s)"
    by (simp only: append_Cons)
  then obtain acc' where "metrics_rows flt m (ks1 @ k # ks2) acc' = (lg, Inr s)"
    unfolding metrics_rows_Cons_Inr by blast
  then show ?case by (rule Cons.IH)
qed

lemma metrics_rows_ValueError:
  assumes "\<forall>k \<in> set ks. map_of m k \<noteq> None \<and> (\<exists>g. strip_file_name k = ([], Inr g))"
    and "k \<in> set ks" and "map_of m k = Some fs"
    and "flt (In_node_space (Mean_links_length fs)) = None
        \<or> flt (In_nucleotide_space (Mean_links_length fs)) = None
        \<or> flt (dIn_node_space (Sum_of_path_nodes_distances fs)) = None
        \<or> flt (dIn_nucleotide_space (Sum_of_path_nodes_distances fs)) = None"
  shows "metrics_rows flt m ks acc = ([], Inl ValueError)"
  using assms(1,2)
proof (induction ks arbitrary: acc)
  case Nil
  then show ?case by simp
next
  case (Cons k1 ks)
  from Cons.prems(1) obtain fs1 g1 where
    l: "map_of m k1 = Some fs1" and st: "strip_file_name k1 = ([], Inr g1)"
    by auto
  show ?case
  proof (cases "metrics_step flt fs1 g1 acc")
    case (Inl e)
    then have "e = ValueError" by (simp add: metrics_step_Inl_iff)
    with Inl l st show ?thesis by simp
  next
    case (Inr acc')
    then have "k1 \<noteq> k"
      using l assms(3,4) by (auto simp: metrics_step_Inr_iff)
    with Cons.prems have "k \<in> set ks"
      and "\<forall>k \<in> set ks. map_of m k \<noteq> None \<and> (\<exists>g. strip_file_name k = ([], Inr g))"
      by simp_all
    from Cons.IH [OF this(2,1), of acc'] Inr l st show ?thesis by simp
  qed
qed

lemma general_rows_Cons_Inr:
  "general_rows m (k # ks) data = (lg, Inr out) \<longleftrightarrow>
     (\<exists>fs g. map_of m k = Some fs \<and> strip_file_name k = ([], Inr g)
        \<and> general_rows m ks (AList.update g (General_stats fs) data) = (lg, Inr out))"
  by (auto split: option.splits sum.splits prod.splits dest: strip_file_name_log)

lemma general_rows_untouched:
  assumes "general_rows m ks data = (lg, Inr out)"
    and "\<forall>k \<in> set ks. snd (strip_file_name k) \<noteq> Inr g"
  shows "map_of out g = map_of data g"
  using assms
proof (induction ks arbitrary: data)
  case Nil
  then show ?case by simp
next
  case (Cons k ks)
  from Cons.prems(1) obtain fs g' where
    "map_of m k = Some fs"
    and st: "strip_file_name k = ([], Inr g')"
    and rest: "general_rows m ks (AList.update g' (General_stats fs) data) = (lg, Inr out)"
    unfolding general_rows_Cons_Inr by blast
  from Cons.prems(2) st have ne: "g' \<noteq> g" by auto
  from Cons.prems(2) have "\<forall>k \<in> set ks. snd (strip_file_name k) \<noteq> Inr g" by simp
  from Cons.IH [OF rest this] ne show ?case
    by (simp add: update_conv')
qed

lemma general_rows_last:
  assumes "general_rows m (ks1 @ k # ks2) data = (lg, Inr out)"
    and "map_of m k = Some fs"
    and "strip_file_name k = (lg0, Inr g)"
    and "\<forall>k' \<in> set ks2. snd (strip_file_name k') \<noteq> Inr g"
  shows "map_of out g = Some (General_stats fs)"
  using assms(1)
proof (induction ks1 arbitrary: data)
  case Nil
  then have "general_rows m (k # ks2) data = (lg, Inr out)" by simp
  with assms(2,3)
  have rest: "general_rows m ks2 (AList.update g (General_stats fs) data) = (lg, Inr out)"
    unfolding general_rows_Cons_Inr by auto
  from general_rows_untouched [OF rest assms(4)] show ?case
    by (simp add: update_conv')
next
  case (Cons k1 ks1)
  from Cons.prems have "general_rows m (k1 # (ks1 @ k # ks2)) data = (lg, Inr out)"
    by (simp only: append_Cons)
  then obtain data' where "general_rows m (ks1 @ k # ks2) data' = (lg, Inr out)"
    unfolding general_rows_Cons_Inr by blast
  then show ?case by (rule Cons.IH)
qed

lemma general_rows_succeeds:
  assumes "\<forall>k \<in> set ks. map_of m k \<noteq> None \<and> (\<exists>g. strip_file_name k = ([], Inr g))"
    and "distinct (map fst data)"
  shows "\<exists>out. general_rows m ks data = ([], Inr out) \<and> distinct (map fst out)"
  using assms
proof (induction ks arbitrary: data)
  case Nil
  then show ?case by simp
next
  case (Cons k ks)
  from Cons.prems(1) obtain fs g where
    l: "map_of m k = Some fs" and st: "strip_file_name k = ([], Inr g)"
    by auto
  from Cons.prems(2) have "distinct (map fst (AList.update g (General_stats fs) data))"
    by (simp add: distinct_update)
  moreover from Cons.prems(1)
  have "\<forall>k \<in> set ks. map_of m k \<noteq> None \<and> (\<exists>g. strip_file_name k = ([], Inr g))" by simp
  ultimately obtain out where
    "general_rows m ks (AList.update g (General_stats fs) data) = ([], Inr out)"
    "distinct (map fst out)"
    using Cons.IH by blast
  with l st show ?case by simp
qed

subsection \<open>The general statistics table\<close>

lemma decimal_float_values_b:
  "decimal_float ''9000'' = Some 9000"
  "decimal_float ''170'' = Some 170"
  "decimal_float ''250'' = Some 250"
  "decimal_float ''36'' = Some 36"
  "decimal_float ''8.5'' = Some (85 / 10)"
  "decimal_float ''400.25'' = Some (40025 / 100)"
  "decimal_float ''18.5'' = Some (185 / 10)"
  "decimal_float ''17.25'' = Some (1725 / 100)"
  by (simp_all add: decimal_float_def is_digit_def digits_value_def)

lemma smooth_a_record_lines:
  "splitlines (r_f smooth_a_record) = report_lines
     [''8778'', ''168'', ''243'', ''35'']
     [''all_paths'', ''9.75053'', ''497.321'', ''942'']
     [''all_paths'', ''20.0686'', ''19.5609'', ''977'', ''51365'', ''90'', ''0'']"
  unfolding smooth_a_record_def RawRecord.simps
  by (rule splitlines_unlines) (simp add: report_lines_def TAB_def is_linebreak_def)

lemma smooth_a_record_rows:
  "length (splitlines (r_f smooth_a_record)) = 8"
  "split TAB (splitlines (r_f smooth_a_record) ! 1) = [''8778'', ''168'', ''243'', ''35'']"
  "split TAB (splitlines (r_f smooth_a_record) ! 4)
     = [''all_paths'', ''9.75053'', ''497.321'', ''942'']"
  "split TAB (splitlines (r_f smooth_a_record) ! 7)
     = [''all_paths'', ''20.0686'', ''19.5609'', ''977'', ''51365'', ''90'', ''0'']"
  by (simp_all add: smooth_a_record_lines report_lines_nth split_tsv)
    (simp_all add: TAB_def)

lemma smooth_b_record_lines:
  "splitlines (r_f smooth_b_record) = report_lines
     [''9000'', ''170'', ''250'', ''36'']
     [''all_paths'', ''8.5'', ''400.25'', ''950'']
     [''all_paths'', ''18.5'', ''17.25'', ''980'', ''52000'', ''91'', ''0'']"
  unfolding smooth_b_record_def RawRecord.simps
  by (rule splitlines_unlines) (simp add: report_lines_def TAB_def is_linebreak_def)

lemma smooth_b_record_rows:
  "length (splitlines (r_f smooth_b_record)) = 8"
  "split TAB (splitlines (r_f smooth_b_record) ! 1) = [''9000'', ''170'', ''250'', ''36'']"
  "split TAB (splitlines (r_f smooth_b_record) ! 4) = [''all_paths'', ''8.5'', ''400.25'', ''950'']"
  "split TAB (splitlines (r_f smooth_b_record) ! 7)
     = [''all_paths'', ''18.5'', ''17.25'', ''980'', ''52000'', ''91'', ''0'']"
  by (simp_all add: smooth_b_record_lines report_lines_nth split_tsv)
    (simp_all add: TAB_def)

lemma parse_smooth_a:
  "parse_odgi_stats_report decimal_float smooth_a_record m
     = (None, AList.update ''a.smooth.tsv'' smooth_a_report m)"
proof -
  have l: "8 \<le> length (splitlines (r_f smooth_a_record))"
    by (simp add: smooth_a_record_rows)
  have g: "general_stats decimal_float (split TAB (splitlines (r_f smooth_a_record) ! 1))
             = Inr \<lparr>Length = 8778, Nodes = 168, Edges = 243, Paths = 35\<rparr>"
    by (simp only: smooth_a_record_rows)
      (simp add: general_stats_Inr_iff decimal_float_values)
  have l4: "4 \<le> length (split TAB (splitlines (r_f smooth_a_record) ! 4))"
    and l7: "7 \<le> length (split TAB (splitlines (r_f smooth_a_record) ! 7))"
    by (simp_all only: smooth_a_record_rows) simp_all
  show ?thesis
    unfolding parse_success [OF l g l4 l7] smooth_a_record_rows smooth_a_report_def
    by (simp add: smooth_a_record_def)
qed

lemma parse_smooth_b:
  "parse_odgi_stats_report decimal_float smooth_b_record m
     = (None, AList.update ''b.smooth.tsv'' smooth_b_report m)"
proof -
  have l: "8 \<le> length (splitlines (r_f smooth_b_record))"
    by (simp add: smooth_b_record_rows)
  have g: "general_stats decimal_float (split TAB (splitlines (r_f smooth_b_record) ! 1))
             = Inr \<lparr>Length = 9000, Nodes = 170, Edges = 250, Paths = 36\<rparr>"
    by (simp only: smooth_b_record_rows)
      (simp add: general_stats_Inr_iff decimal_float_values_b)
  have l4: "4 \<le> length (split TAB (splitlines (r_f smooth_b_record) ! 4))"
    and l7: "7 \<le> length (split TAB (splitlines (r_f smooth_b_record) ! 7))"
    by (simp_all only: smooth_b_record_rows) simp_all
  show ?thesis
    unfolding parse_success [OF l g l4 l7] smooth_b_record_rows smooth_b_report_def
    by (simp add: smooth_b_record_def)
qed

lemma parse_all_smooth:
  "parse_all decimal_float [smooth_a_record, smooth_b_record] [] = (None, smooth_store)"
  by (simp add: parse_smooth_a parse_smooth_b smooth_store_def)

lemma strip_smooth:
  "strip_file_name ''a.smooth.tsv'' = ([], Inr ''smooth'')"
  "strip_file_name ''b.smooth.tsv'' = ([], Inr ''smooth'')"
  by (simp_all add: strip_file_name_def)

text \<open>
  Claim C5. The rows of the general statistics table are keyed by the identifier
  derived from the file name. When every file name of the map gives an identifier, the
  table is built without error, with one row for each identifier; when several files give
  the same identifier, its row holds the general stats of the last of them in the order
  of the map.
\<close>

theorem summary_table_last_write_wins:
  assumes "m = pre @ (k1, r1) # mid @ (k2, r2) # post"
    and "distinct (map fst m)"
    and "\<forall>k \<in> set (map fst m). \<exists>g'. strip_file_name k = ([], Inr g')"
    and "strip_file_name k1 = ([], Inr g)"
    and "strip_file_name k2 = ([], Inr g)"
    and "\<forall>k \<in> set (map fst post). snd (strip_file_name k) \<noteq> Inr g"
  shows "\<exists>data. plot_general_odgi_stats m = ([], Inr data)
           \<and> map_of data g = Some (General_stats r2)
           \<and> distinct (map fst data)"
proof -
  have keys: "\<forall>k \<in> set (map fst m). map_of m k \<noteq> None
                \<and> (\<exists>g'. strip_file_name k = ([], Inr g'))"
    using assms(3) by (auto simp: map_of_eq_None_iff)
  then obtain data where
    d: "general_rows m (map fst m) [] = ([], Inr data)" and dist: "distinct (map fst data)"
    using general_rows_succeeds [of "map fst m" m "[]"] by auto
  have l: "map_of m k2 = Some r2"
    using assms(1,2) by (intro map_of_is_SomeI) simp_all
  have split: "map fst m = map fst (pre @ (k1, r1) # mid) @ k2 # map fst post"
    using assms(1) by simp
  from d have "general_rows m (map fst (pre @ (k1, r1) # mid) @ k2 # map fst post) []
                 = ([], Inr data)"
    by (simp only: split [symmetric])
  from general_rows_last [OF this l assms(5,6)]
  have "map_of data g = Some (General_stats r2)" .
  with d dist show ?thesis
    by (auto simp: plot_general_odgi_stats_def)
qed

theorem summary_table_last_write_wins_witness:
  "smooth_store = [] @ (''a.smooth.tsv'', smooth_a_report) # []
                     @ (''b.smooth.tsv'', smooth_b_report) # []
   \<and> distinct (map fst smooth_store)
   \<and> map fst smooth_store = [''a.smooth.tsv'', ''b.smooth.tsv'']
   \<and> strip_file_name ''a.smooth.tsv'' = ([], Inr ''smooth'')
   \<and> strip_file_name ''b.smooth.tsv'' = ([], Inr ''smooth'')
   \<and> (\<exists>data. plot_general_odgi_stats smooth_store = ([], Inr data)
         \<and> map_of data ''smooth''
             = Some \<lparr>Length = 9000, Nodes = 170, Edges = 250, Paths = 36\<rparr>
         \<and> distinct (map fst data))"
proof -
  have h1: "smooth_store = [] @ (''a.smooth.tsv'', smooth_a_report) # []
                     @ (''b.smooth.tsv'', smooth_b_report) # []"
    by (simp add: smooth_store_def)
  have h2: "distinct (map fst smooth_store)" by (simp add: smooth_store_def)
  have h2': "map fst smooth_store = [''a.smooth.tsv'', ''b.smooth.tsv'']"
    by (simp add: smooth_store_def)
  have h3: "\<forall>k \<in> set (map fst smooth_store). \<exists>g'. strip_file_name k = ([], Inr g')"
    by (simp add: h2' strip_smooth)
  have h6: "\<forall>k \<in> set (map fst ([] :: rat ReportStore)). snd (strip_file_name k) \<noteq> Inr ''smooth''"
    by simp
  from summary_table_last_write_wins [OF h1 h2 h3 strip_smooth(1) strip_smooth(2) h6]
  have "\<exists>data. plot_general_odgi_stats smooth_store = ([], Inr data)
         \<and> map_of data ''smooth'' = Some (General_stats smooth_b_report)
         \<and> distinct (map fst data)" .
  then have "\<exists>data. plot_general_odgi_stats smooth_store = ([], Inr data)
         \<and> map_of data ''smooth''
             = Some \<lparr>Length = 9000, Nodes = 170, Edges = 250, Paths = 36\<rparr>
         \<and> distinct (map fst data)"
    by (simp add: smooth_b_report_def)
  with h1 h2 h2' strip_smooth show ?thesis by blast
qed

subsection \<open>The series\<close>

lemma parse_None_report:
  assumes "parse_odgi_stats_report flt rc m0 = (None, m1)"
  shows "\<exists>g. m1 = AList.update (r_fn rc)
       \<lparr>General_stats = g,
        Mean_links_length =
          \<lparr>Path = split TAB (splitlines (r_f rc) ! 4) ! 0,
           In_node_space = split TAB (splitlines (r_f rc) ! 4) ! 1,
           In_nucleotide_space = split TAB (splitlines (r_f rc) ! 4) ! 2,
           Num_links_considered = split TAB (splitlines (r_f rc) ! 4) ! 3\<rparr>,
        Sum_of_path_nodes_distances =
          \<lparr>dPath = split TAB (splitlines (r_f rc) ! 7) ! 0,
           dIn_node_space = split TAB (splitlines (r_f rc) ! 7) ! 1,
           dIn_nucleotide_space = split TAB (splitlines (r_f rc) ! 7) ! 2,
           dNodes = split TAB (splitlines (r_f rc) ! 7) ! 3,
           dNucleotides = split TAB (splitlines (r_f rc) ! 7) ! 4,
           dNum_penalties = split TAB (splitlines (r_f rc) ! 7) ! 5,
           dNum_penalties_different_orientation = split TAB (splitlines (r_f rc) ! 7) ! 6\<rparr>\<rparr>
       m0"
proof -
  have "\<not> (\<exists>e. parse_odgi_stats_report flt rc m0 = (Some e, m0))"
    using assms by simp
  then obtain g where ok: "8 \<le> length (splitlines (r_f rc))"
    "general_stats flt (split TAB (splitlines (r_f rc) ! 1)) = Inr g"
    "4 \<le> length (split TAB (splitlines (r_f rc) ! 4))"
    "7 \<le> length (split TAB (splitlines (r_f rc) ! 7))"
    using parse_fails_iff [of flt rc m0] by blast
  from parse_success [OF ok, of m0] assms show ?thesis by auto
qed

lemma example_record_report:
  assumes "flt ''8778'' = Some l" "flt ''168'' = Some n" "flt ''243'' = Some e"
    "flt ''35'' = Some p"
  shows "parse_odgi_stats_report flt example_record []
     = (None, [(''x.seqwish.og.tsv'',
         \<lparr>General_stats = \<lparr>Length = l, Nodes = n, Edges = e, Paths = p\<rparr>,
          Mean_links_length =
            \<lparr>Path = ''all_paths'', In_node_space = ''9.75053'',
             In_nucleotide_space = ''497.321'', Num_links_considered = ''942''\<rparr>,
          Sum_of_path_nodes_distances =
            \<lparr>dPath = ''all_paths'', dIn_node_space = ''20.0686'',
             dIn_nucleotide_space = ''19.5609'', dNodes = ''977'', dNucleotides = ''51365'',
             dNum_penalties = ''90'', dNum_penalties_different_orientation = ''0''\<rparr>\<rparr>)])"
proof -
  have l: "8 \<le> length (splitlines (r_f example_record))"
    by (simp add: example_record_rows)
  have g: "general_stats flt (split TAB (splitlines (r_f example_record) ! 1))
             = Inr \<lparr>Length = l, Nodes = n, Edges = e, Paths = p\<rparr>"
    by (simp only: example_record_rows) (simp add: general_stats_Inr_iff assms)
  have l4: "4 \<le> length (split TAB (splitlines (r_f example_record) ! 4))"
    and l7: "7 \<le> length (split TAB (splitlines (r_f example_record) ! 7))"
    by (simp_all only: example_record_rows) simp_all
  show ?thesis
    unfolding parse_success [OF l g l4 l7] example_record_rows
    by (simp add: example_record_def)
qed

lemma strip_example: "strip_file_name ''x.seqwish.og.tsv'' = ([], Inr ''seqwish'')"
  by (simp add: strip_file_name_def)

lemma plot_metrics_smooth_store:
  "plot_odgi_metrics decimal_float smooth_store
     = ([], Inr \<lparr>in_node_space_mean = [(''smooth'', 85 / 10)],
                 in_nucleotide_space_mean = [(''smooth'', 40025 / 100)],
                 in_node_space_sum = [(''smooth'', 185 / 10)],
                 in_nucleotide_space_sum = [(''smooth'', 1725 / 100)]\<rparr>)"
proof -
  have o: "sorted_filenames (map fst smooth_store) = [''a.smooth.tsv'', ''b.smooth.tsv'']"
    by (simp add: smooth_store_def sorted_filenames_eq)
  have la: "map_of smooth_store ''a.smooth.tsv'' = Some smooth_a_report"
    and lb: "map_of smooth_store ''b.smooth.tsv'' = Some smooth_b_report"
    by (simp_all add: smooth_store_def)
  show ?thesis
    unfolding plot_odgi_metrics_def o
    by (simp add: la lb strip_smooth metrics_step_def Let_def to_float_def
          smooth_a_report_def smooth_b_report_def decimal_float_values
          decimal_float_values_b empty_series_def)
qed

text \<open>
  Claim C8, as stated, fails for a map with two files that give the same identifier:
  the series hold one entry for \<open>smooth\<close>, with the values of \<open>b.smooth.tsv\<close>, and
  not the conversion of the fields of \<open>a.smooth.tsv\<close>, which is in the map too.
\<close>

theorem series_values_counterexample:
  "parse_all decimal_float [smooth_a_record, smooth_b_record] [] = (None, smooth_store)
   \<and> map_of smooth_store ''a.smooth.tsv'' = Some smooth_a_report
   \<and> r_fn smooth_a_record = ''a.smooth.tsv''
   \<and> strip_file_name ''a.smooth.tsv'' = ([], Inr ''smooth'')
   \<and> decimal_float (split TAB (splitlines (r_f smooth_a_record) ! 4) ! 1)
       = Some (975053 / 100000)
   \<and> plot_odgi_metrics decimal_float smooth_store
       = ([], Inr \<lparr>in_node_space_mean = [(''smooth'', 85 / 10)],
                   in_nucleotide_space_mean = [(''smooth'', 40025 / 100)],
                   in_node_space_sum = [(''smooth'', 185 / 10)],
                   in_nucleotide_space_sum = [(''smooth'', 1725 / 100)]\<rparr>)
   \<and> (975053 / 100000 :: rat) \<noteq> 85 / 10"
proof -
  have "split TAB (splitlines (r_f smooth_a_record) ! 4) ! 1 = ''9.75053''"
    by (simp only: smooth_a_record_rows) simp
  then have "decimal_float (split TAB (splitlines (r_f smooth_a_record) ! 4) ! 1)
       = Some (975053 / 100000)"
    by (simp only: decimal_float_values)
  moreover have "map_of smooth_store ''a.smooth.tsv'' = Some smooth_a_report"
    by (simp add: smooth_store_def)
  moreover have "r_fn smooth_a_record = ''a.smooth.tsv''"
    by (simp add: smooth_a_record_def)
  moreover have "(975053 / 100000 :: rat) \<noteq> 85 / 10" by simp
  ultimately show ?thesis
    using parse_all_smooth strip_smooth(1) plot_metrics_smooth_store by blast
qed

text \<open>
  Claim C8, amended. Take a file of the map whose report was extracted from a record, and
  let no file after it in the order of the loop give the same identifier. When the
  series are built, each of the four maps the identifier of the file to the conversion of
  a field of the record: fields 1 and 2 of line 4 for the two means, fields 1 and 2 of
  line 7 for the two sums. For the report of the docstring under the name
  \<open>x.seqwish.og.tsv\<close>, each series is the one entry for \<open>seqwish\<close> with the
  conversions of \<open>9.75053\<close>, \<open>497.321\<close>, \<open>20.0686\<close> and \<open>19.5609\<close>.
\<close>

theorem series_values:
  "(parse_odgi_stats_report flt rc m0 = (None, m1)
      \<and> map_of m (r_fn rc) = map_of m1 (r_fn rc)
      \<and> plot_odgi_metrics flt m = (lg, Inr s)
      \<and> strip_file_name (r_fn rc) = (lg0, Inr g)
      \<and> sorted_filenames (map fst m) = ks1 @ r_fn rc # ks2
      \<and> (\<forall>k' \<in> set ks2. snd (strip_file_name k') \<noteq> Inr g)
    \<longrightarrow> map_of (in_node_space_mean s) g = flt (split TAB (splitlines (r_f rc) ! 4) ! 1)
        \<and> map_of (in_nucleotide_space_mean s) g
            = flt (split TAB (splitlines (r_f rc) ! 4) ! 2)
        \<and> map_of (in_node_space_sum s) g = flt (split TAB (splitlines (r_f rc) ! 7) ! 1)
        \<and> map_of (in_nucleotide_space_sum s) g
            = flt (split TAB (splitlines (r_f rc) ! 7) ! 2)
        \<and> map_of (in_node_space_mean s) g \<noteq> None
        \<and> map_of (in_nucleotide_space_mean s) g \<noteq> None
        \<and> map_of (in_node_space_sum s) g \<noteq> None
        \<and> map_of (in_nucleotide_space_sum s) g \<noteq> None)
   \<and> (flt ''8778'' = Some l \<and> flt ''168'' = Some n \<and> flt ''243'' = Some e
      \<and> flt ''35'' = Some p \<and> flt ''9.75053'' = Some a \<and> flt ''497.321'' = Some b
      \<and> flt ''20.0686'' = Some c \<and> flt ''19.5609'' = Some d
    \<longrightarrow> plot_odgi_metrics flt (snd (parse_odgi_stats_report flt example_record []))
          = ([], Inr \<lparr>in_node_space_mean = [(''seqwish'', a)],
                      in_nucleotide_space_mean = [(''seqwish'', b)],
                      in_node_space_sum = [(''seqwish'', c)],
                      in_nucleotide_space_sum = [(''seqwish'', d)]\<rparr>))"
proof (intro conjI impI)
  assume h: "parse_odgi_stats_report flt rc m0 = (None, m1)
      \<and> map_of m (r_fn rc) = map_of m1 (r_fn rc)
      \<and> plot_odgi_metrics flt m = (lg, Inr s)
      \<and> strip_file_name (r_fn rc) = (lg0, Inr g)
      \<and> sorted_filenames (map fst m) = ks1 @ r_fn rc # ks2
      \<and> (\<forall>k' \<in> set ks2. snd (strip_file_name k') \<noteq> Inr g)"
  from h parse_None_report [of flt rc m0 m1] obtain fs where
    fs: "map_of m1 (r_fn rc) = Some fs"
    and f1: "In_node_space (Mean_links_length fs) = split TAB (splitlines (r_f rc) ! 4) ! 1"
    and f2: "In_nucleotide_space (Mean_links_length fs)
               = split TAB (splitlines (r_f rc) ! 4) ! 2"
    and f3: "dIn_node_space (Sum_of_path_nodes_distances fs)
               = split TAB (splitlines (r_f rc) ! 7) ! 1"
    and f4: "dIn_nucleotide_space (Sum_of_path_nodes_distances fs)
               = split TAB (splitlines (r_f rc) ! 7) ! 2"
    by (auto simp: update_conv')
  from h fs have l: "map_of m (r_fn rc) = Some fs" by simp
  from h have "plot_odgi_metrics flt m = (lg, Inr s)"
    and "sorted_filenames (map fst m) = ks1 @ r_fn rc # ks2"
    by blast+
  then have run: "metrics_rows flt m (ks1 @ r_fn rc # ks2) empty_series = (lg, Inr s)"
    by (simp only: plot_odgi_metrics_def)
  from h have st: "strip_file_name (r_fn rc) = (lg0, Inr g)"
    and last: "\<forall>k' \<in> set ks2. snd (strip_file_name k') \<noteq> Inr g"
    by simp_all
  note r = metrics_rows_last [OF run l st last, unfolded f1 f2 f3 f4]
  from r show "map_of (in_node_space_mean s) g = flt (split TAB (splitlines (r_f rc) ! 4) ! 1)"
    by blast
  from r show "map_of (in_nucleotide_space_mean s) g
            = flt (split TAB (splitlines (r_f rc) ! 4) ! 2)" by blast
  from r show "map_of (in_node_space_sum s) g = flt (split TAB (splitlines (r_f rc) ! 7) ! 1)"
    by blast
  from r show "map_of (in_nucleotide_space_sum s) g
            = flt (split TAB (splitlines (r_f rc) ! 7) ! 2)" by blast
  from r show "map_of (in_node_space_mean s) g \<noteq> None" by blast
  from r show "map_of (in_nucleotide_space_mean s) g \<noteq> None" by blast
  from r show "map_of (in_node_space_sum s) g \<noteq> None" by blast
  from r show "map_of (in_nucleotide_space_sum s) g \<noteq> None" by blast
next
  assume v: "flt ''8778'' = Some l \<and> flt ''168'' = Some n \<and> flt ''243'' = Some e
      \<and> flt ''35'' = Some p \<and> flt ''9.75053'' = Some a \<and> flt ''497.321'' = Some b
      \<and> flt ''20.0686'' = Some c \<and> flt ''19.5609'' = Some d"
  then have st: "parse_odgi_stats_report flt example_record []
     = (None, [(''x.seqwish.og.tsv'',
         \<lparr>General_stats = \<lparr>Length = l, Nodes = n, Edges = e, Paths = p\<rparr>,
          Mean_links_length =
            \<lparr>Path = ''all_paths'', In_node_space = ''9.75053'',
             In_nucleotide_space = ''497.321'', Num_links_considered = ''942''\<rparr>,
          Sum_of_path_nodes_distances =
            \<lparr>dPath = ''all_paths'', dIn_node_space = ''20.0686'',
             dIn_nucleotide_space = ''19.5609'', dNodes = ''977'', dNucleotides = ''51365'',
             dNum_penalties = ''90'', dNum_penalties_different_orientation = ''0''\<rparr>\<rparr>)])"
    by (intro example_record_report) simp_all
  have o: "sorted_filenames [''x.seqwish.og.tsv''] = [''x.seqwish.og.tsv'']"
    by (simp add: sorted_filenames_eq)
  from v show "plot_odgi_metrics flt (snd (parse_odgi_stats_report flt example_record []))
          = ([], Inr \<lparr>in_node_space_mean = [(''seqwish'', a)],
                      in_nucleotide_space_mean = [(''seqwish'', b)],
                      in_node_space_sum = [(''seqwish'', c)],
                      in_nucleotide_space_sum = [(''seqwish'', d)]\<rparr>)"
    unfolding st snd_conv plot_odgi_metrics_def
    by (simp add: o strip_example metrics_step_def Let_def to_float_def empty_series_def)
qed

theorem series_values_witness:
  "parse_odgi_stats_report decimal_float smooth_b_record [(''a.smooth.tsv'', smooth_a_report)]
     = (None, smooth_store)
   \<and> strip_file_name (r_fn smooth_b_record) = ([], Inr ''smooth'')
   \<and> sorted_filenames (map fst smooth_store) = [''a.smooth.tsv''] @ r_fn smooth_b_record # []
   \<and> plot_odgi_metrics decimal_float smooth_store
       = ([], Inr \<lparr>in_node_space_mean = [(''smooth'', 85 / 10)],
                   in_nucleotide_space_mean = [(''smooth'', 40025 / 100)],
                   in_node_space_sum = [(''smooth'', 185 / 10)],
                   in_nucleotide_space_sum = [(''smooth'', 1725 / 100)]\<rparr>)
   \<and> decimal_float (split TAB (splitlines (r_f smooth_b_record) ! 4) ! 1) = Some (85 / 10)
   \<and> decimal_float (split TAB (splitlines (r_f smooth_b_record) ! 4) ! 2) = Some (40025 / 100)
   \<and> decimal_float (split TAB (splitlines (r_f smooth_b_record) ! 7) ! 1) = Some (185 / 10)
   \<and> decimal_float (split TAB (splitlines (r_f smooth_b_record) ! 7) ! 2) = Some (1725 / 100)
   \<and> decimal_float ''8778'' = Some 8778 \<and> decimal_float ''168'' = Some 168
   \<and> decimal_float ''243'' = Some 243 \<and> decimal_float ''35'' = Some 35
   \<and> decimal_float ''9.75053'' = Some (975053 / 100000)
   \<and> decimal_float ''497.321'' = Some (497321 / 1000)
   \<and> decimal_float ''20.0686'' = Some (200686 / 10000)
   \<and> decimal_float ''19.5609'' = Some (195609 / 10000)
   \<and> plot_odgi_metrics decimal_float
         (snd (parse_odgi_stats_report decimal_float example_record []))
       = ([], Inr \<lparr>in_node_space_mean = [(''seqwish'', 975053 / 100000)],
                   in_nucleotide_space_mean = [(''seqwish'', 497321 / 1000)],
                   in_node_space_sum = [(''seqwish'', 200686 / 10000)],
                   in_nucleotide_space_sum = [(''seqwish'', 195609 / 10000)]\<rparr>)"
proof -
  have fnb: "r_fn smooth_b_record = ''b.smooth.tsv''"
    by (simp add: smooth_b_record_def)
  have h1: "parse_odgi_stats_report decimal_float smooth_b_record
              [(''a.smooth.tsv'', smooth_a_report)] = (None, smooth_store)"
    by (simp add: parse_smooth_b smooth_store_def)
  have h2: "map_of smooth_store (r_fn smooth_b_record)
              = map_of smooth_store (r_fn smooth_b_record)" ..
  note h3 = plot_metrics_smooth_store
  have h4: "strip_file_name (r_fn smooth_b_record) = ([], Inr ''smooth'')"
    by (simp only: fnb strip_smooth)
  have h5: "sorted_filenames (map fst smooth_store)
              = [''a.smooth.tsv''] @ r_fn smooth_b_record # []"
    by (simp add: smooth_store_def sorted_filenames_eq fnb)
  have h6: "\<forall>k' \<in> set []. snd (strip_file_name k') \<noteq> Inr ''smooth''" by simp
  from series_values
    [where flt = decimal_float and rc = smooth_b_record
       and ?m0.0 = "[(''a.smooth.tsv'', smooth_a_report)]" and ?m1.0 = smooth_store
       and m = smooth_store and lg = "[]" and ?lg0.0 = "[]" and g = "''smooth''"
       and ?ks1.0 = "[''a.smooth.tsv'']" and ?ks2.0 = "[]"
       and s = "\<lparr>in_node_space_mean = [(''smooth'', 85 / 10)],
                   in_nucleotide_space_mean = [(''smooth'', 40025 / 100)],
                   in_node_space_sum = [(''smooth'', 185 / 10)],
                   in_nucleotide_space_sum = [(''smooth'', 1725 / 100)]\<rparr>"]
    h1 h2 h3 h4 h5 h6
  have r1: "decimal_float (split TAB (splitlines (r_f smooth_b_record) ! 4) ! 1) = Some (85 / 10)
   \<and> decimal_float (split TAB (splitlines (r_f smooth_b_record) ! 4) ! 2) = Some (40025 / 100)
   \<and> decimal_float (split TAB (splitlines (r_f smooth_b_record) ! 7) ! 1) = Some (185 / 10)
   \<and> decimal_float (split TAB (splitlines (r_f smooth_b_record) ! 7) ! 2) = Some (1725 / 100)"
    by simp
  note v = decimal_float_values(1-8)
  from series_values
    [where flt = decimal_float and l = 8778 and n = 168 and e = 243 and p = 35
       and a = "975053 / 100000" and b = "497321 / 1000" and c = "200686 / 10000"
       and d = "195609 / 10000"] v
  have r2: "plot_odgi_metrics decimal_float
         (snd (parse_odgi_stats_report decimal_float example_record []))
       = ([], Inr \<lparr>in_node_space_mean = [(''seqwish'', 975053 / 100000)],
                   in_nucleotide_space_mean = [(''seqwish'', 497321 / 1000)],
                   in_node_space_sum = [(''seqwish'', 200686 / 10000)],
                   in_nucleotide_space_sum = [(''seqwish'', 195609 / 10000)]\<rparr>)"
    by blast
  from h1 h4 h5 h3 r1 v r2 show ?thesis by blast
qed

lemma nonnumeric_links_record_lines:
  "splitlines (r_f nonnumeric_links_record) = report_lines
     [''8778'', ''168'', ''243'', ''35'']
     [''all_paths'', ''NA'', ''497.321'', ''942'']
     [''all_paths'', ''20.0686'', ''19.5609'', ''977'', ''51365'', ''90'', ''0'']"
  unfolding nonnumeric_links_record_def RawRecord.simps
  by (rule splitlines_unlines) (simp add: report_lines_def TAB_def is_linebreak_def)

lemma nonnumeric_links_record_rows:
  "length (splitlines (r_f nonnumeric_links_record)) = 8"
  "split TAB (splitlines (r_f nonnumeric_links_record) ! 1) = [''8778'', ''168'', ''243'', ''35'']"
  "split TAB (splitlines (r_f nonnumeric_links_record) ! 4)
     = [''all_paths'', ''NA'', ''497.321'', ''942'']"
  "split TAB (splitlines (r_f nonnumeric_links_record) ! 7)
     = [''all_paths'', ''20.0686'', ''19.5609'', ''977'', ''51365'', ''90'', ''0'']"
  by (simp_all add: nonnumeric_links_record_lines report_lines_nth split_tsv)
    (simp_all add: TAB_def)

text \<open>
  Claim C9. Extraction converts the fields of line 1 only. A record that has the
  expected lines and fields and numbers in the first four fields of line 1 is stored
  whatever the fields of lines 4 and 7 are: they are kept as the strings of the text.
  A map that holds a report with a string that is no number among the four that the
  series use still gives the general statistics table, and makes the building of the
  series end with a value error (when every file name of the map gives an identifier).
\<close>

theorem link_fields_converted_late:
  "(8 \<le> length (splitlines (r_f rc))
      \<and> 4 \<le> length (split TAB (splitlines (r_f rc) ! 1))
      \<and> flt (split TAB (splitlines (r_f rc) ! 1) ! 0) \<noteq> None
      \<and> flt (split TAB (splitlines (r_f rc) ! 1) ! 1) \<noteq> None
      \<and> flt (split TAB (splitlines (r_f rc) ! 1) ! 2) \<noteq> None
      \<and> flt (split TAB (splitlines (r_f rc) ! 1) ! 3) \<noteq> None
      \<and> 4 \<le> length (split TAB (splitlines (r_f rc) ! 4))
      \<and> 7 \<le> length (split TAB (splitlines (r_f rc) ! 7))
    \<longrightarrow> (\<exists>rep. parse_odgi_stats_report flt rc m0 = (None, AList.update (r_fn rc) rep m0)
          \<and> In_node_space (Mean_links_length rep) = split TAB (splitlines (r_f rc) ! 4) ! 1
          \<and> In_nucleotide_space (Mean_links_length rep)
              = split TAB (splitlines (r_f rc) ! 4) ! 2
          \<and> dIn_node_space (Sum_of_path_nodes_distances rep)
              = split TAB (splitlines (r_f rc) ! 7) ! 1
          \<and> dIn_nucleotide_space (Sum_of_path_nodes_distances rep)
              = split TAB (splitlines (r_f rc) ! 7) ! 2))
   \<and> ((\<forall>k \<in> set (map fst m). \<exists>g. strip_file_name k = ([], Inr g))
      \<and> map_of m k = Some fs
      \<and> (flt (In_node_space (Mean_links_length fs)) = None
          \<or> flt (In_nucleotide_space (Mean_links_length fs)) = None
          \<or> flt (dIn_node_space (Sum_of_path_nodes_distances fs)) = None
          \<or> flt (dIn_nucleotide_space (Sum_of_path_nodes_distances fs)) = None)
    \<longrightarrow> plot_odgi_metrics flt m = ([], Inl ValueError)
        \<and> (\<exists>data. plot_general_odgi_stats m = ([], Inr data)))"
proof (intro conjI impI)
  assume ok: "8 \<le> length (splitlines (r_f rc))
      \<and> 4 \<le> length (split TAB (splitlines (r_f rc) ! 1))
      \<and> flt (split TAB (splitlines (r_f rc) ! 1) ! 0) \<noteq> None
      \<and> flt (split TAB (splitlines (r_f rc) ! 1) ! 1) \<noteq> None
      \<and> flt (split TAB (splitlines (r_f rc) ! 1) ! 2) \<noteq> None
      \<and> flt (split TAB (splitlines (r_f rc) ! 1) ! 3) \<noteq> None
      \<and> 4 \<le> length (split TAB (splitlines (r_f rc) ! 4))
      \<and> 7 \<le> length (split TAB (splitlines (r_f rc) ! 7))"
  then obtain a b c d where
    "flt (split TAB (splitlines (r_f rc) ! 1) ! 0) = Some a"
    "flt (split TAB (splitlines (r_f rc) ! 1) ! 1) = Some b"
    "flt (split TAB (splitlines (r_f rc) ! 1) ! 2) = Some c"
    "flt (split TAB (splitlines (r_f rc) ! 1) ! 3) = Some d"
    by auto
  with ok have g: "general_stats flt (split TAB (splitlines (r_f rc) ! 1))
             = Inr \<lparr>Length = a, Nodes = b, Edges = c, Paths = d\<rparr>"
    by (simp add: general_stats_Inr_iff)
  from ok have l: "8 \<le> length (splitlines (r_f rc))"
    and l4: "4 \<le> length (split TAB (splitlines (r_f rc) ! 4))"
    and l7: "7 \<le> length (split TAB (splitlines (r_f rc) ! 7))"
    by simp_all
  show "\<exists>rep. parse_odgi_stats_report flt rc m0 = (None, AList.update (r_fn rc) rep m0)
          \<and> In_node_space (Mean_links_length rep) = split TAB (splitlines (r_f rc) ! 4) ! 1
          \<and> In_nucleotide_space (Mean_links_length rep)
              = split TAB (splitlines (r_f rc) ! 4) ! 2
          \<and> dIn_node_space (Sum_of_path_nodes_distances rep)
              = split TAB (splitlines (r_f rc) ! 7) ! 1
          \<and> dIn_nucleotide_space (Sum_of_path_nodes_distances rep)
              = split TAB (splitlines (r_f rc) ! 7) ! 2"
    unfolding parse_success [OF l g l4 l7]
    by (intro exI conjI, rule refl) simp_all
next
  assume h: "(\<forall>k \<in> set (map fst m). \<exists>g. strip_file_name k = ([], Inr g))
      \<and> map_of m k = Some fs
      \<and> (flt (In_node_space (Mean_links_length fs)) = None
          \<or> flt (In_nucleotide_space (Mean_links_length fs)) = None
          \<or> flt (dIn_node_space (Sum_of_path_nodes_distances fs)) = None
          \<or> flt (dIn_nucleotide_space (Sum_of_path_nodes_distances fs)) = None)"
  then have keys: "\<forall>k \<in> set (map fst m). map_of m k \<noteq> None
                \<and> (\<exists>g. strip_file_name k = ([], Inr g))"
    by (auto simp: map_of_eq_None_iff)
  then have keys': "\<forall>k \<in> set (sorted_filenames (map fst m)). map_of m k \<noteq> None
                \<and> (\<exists>g. strip_file_name k = ([], Inr g))"
    by (simp only: set_sorted_filenames)
  from h have l: "map_of m k = Some fs" by blast
  then have "k \<in> set (map fst m)"
    by (auto dest: map_of_SomeD intro: rev_image_eqI)
  then have mem: "k \<in> set (sorted_filenames (map fst m))"
    by (simp only: set_sorted_filenames)
  from h have bad: "flt (In_node_space (Mean_links_length fs)) = None
          \<or> flt (In_nucleotide_space (Mean_links_length fs)) = None
          \<or> flt (dIn_node_space (Sum_of_path_nodes_distances fs)) = None
          \<or> flt (dIn_nucleotide_space (Sum_of_path_nodes_distances fs)) = None"
    by (rule conjunct2 [OF conjunct2])
  show "plot_odgi_metrics flt m = ([], Inl ValueError)"
    unfolding plot_odgi_metrics_def
    by (rule metrics_rows_ValueError [OF keys' mem l bad])
  from general_rows_succeeds [OF keys, of "[]"]
  show "\<exists>data. plot_general_odgi_stats m = ([], Inr data)"
    by (auto simp: plot_general_odgi_stats_def)
qed

theorem link_fields_converted_late_witness:
  "8 \<le> length (splitlines (r_f nonnumeric_links_record))
   \<and> split TAB (splitlines (r_f nonnumeric_links_record) ! 1) = [''8778'', ''168'', ''243'', ''35'']
   \<and> decimal_float ''8778'' \<noteq> None \<and> decimal_float ''168'' \<noteq> None
   \<and> decimal_float ''243'' \<noteq> None \<and> decimal_float ''35'' \<noteq> None
   \<and> split TAB (splitlines (r_f nonnumeric_links_record) ! 4)
       = [''all_paths'', ''NA'', ''497.321'', ''942'']
   \<and> 7 \<le> length (split TAB (splitlines (r_f nonnumeric_links_record) ! 7))
   \<and> decimal_float ''NA'' = None
   \<and> (\<exists>rep. parse_odgi_stats_report decimal_float nonnumeric_links_record []
                = (None, [(''x.seqwish.og.tsv'', rep)])
          \<and> In_node_space (Mean_links_length rep) = ''NA''
          \<and> strip_file_name ''x.seqwish.og.tsv'' = ([], Inr ''seqwish'')
          \<and> plot_odgi_metrics decimal_float [(''x.seqwish.og.tsv'', rep)]
              = ([], Inl ValueError)
          \<and> (\<exists>data. plot_general_odgi_stats [(''x.seqwish.og.tsv'', rep)]
                       = ([], Inr data)))"
proof -
  note rows = nonnumeric_links_record_rows
  have fn: "r_fn nonnumeric_links_record = ''x.seqwish.og.tsv''"
    by (simp add: nonnumeric_links_record_def)
  have a: "8 \<le> length (splitlines (r_f nonnumeric_links_record))
      \<and> 4 \<le> length (split TAB (splitlines (r_f nonnumeric_links_record) ! 1))
      \<and> decimal_float (split TAB (splitlines (r_f nonnumeric_links_record) ! 1) ! 0) \<noteq> None
      \<and> decimal_float (split TAB (splitlines (r_f nonnumeric_links_record) ! 1) ! 1) \<noteq> None
      \<and> decimal_float (split TAB (splitlines (r_f nonnumeric_links_record) ! 1) ! 2) \<noteq> None
      \<and> decimal_float (split TAB (splitlines (r_f nonnumeric_links_record) ! 1) ! 3) \<noteq> None
      \<and> 4 \<le> length (split TAB (splitlines (r_f nonnumeric_links_record) ! 4))
      \<and> 7 \<le> length (split TAB (splitlines (r_f nonnumeric_links_record) ! 7))"
    by (simp only: rows) (simp add: decimal_float_values)
  with link_fields_converted_late
    [where flt = decimal_float and rc = nonnumeric_links_record and ?m0.0 = "[]"]
  obtain rep where
    p: "parse_odgi_stats_report decimal_float nonnumeric_links_record []
          = (None, AList.update (r_fn nonnumeric_links_record) rep [])"
    and s: "In_node_space (Mean_links_length rep)
              = split TAB (splitlines (r_f nonnumeric_links_record) ! 4) ! 1"
    by blast
  from p have p': "parse_odgi_stats_report decimal_float nonnumeric_links_record []
          = (None, [(''x.seqwish.og.tsv'', rep)])"
    by (simp add: fn)
  from s have s': "In_node_space (Mean_links_length rep) = ''NA''"
    by (simp only: rows) simp
  have b1: "\<forall>k \<in> set (map fst [(''x.seqwish.og.tsv'', rep)]).
              \<exists>g. strip_file_name k = ([], Inr g)"
    by (simp add: strip_example)
  have b2: "map_of [(''x.seqwish.og.tsv'', rep)] ''x.seqwish.og.tsv'' = Some rep" by simp
  have b3: "decimal_float (In_node_space (Mean_links_length rep)) = None"
    by (simp only: s' decimal_float_values)
  from link_fields_converted_late
    [where flt = decimal_float and m = "[(''x.seqwish.og.tsv'', rep)]"
       and k = "''x.seqwish.og.tsv''" and fs = rep] b1 b2 b3
  have r: "plot_odgi_metrics decimal_float [(''x.seqwish.og.tsv'', rep)] = ([], Inl ValueError)
        \<and> (\<exists>data. plot_general_odgi_stats [(''x.seqwish.og.tsv'', rep)] = ([], Inr data))"
    by blast
  have c: "8 \<le> length (splitlines (r_f nonnumeric_links_record))"
    "7 \<le> length (split TAB (splitlines (r_f nonnumeric_links_record) ! 7))"
    by (simp_all only: rows) simp_all
  have d: "decimal_float ''8778'' \<noteq> None" "decimal_float ''168'' \<noteq> None"
    "decimal_float ''243'' \<noteq> None" "decimal_float ''35'' \<noteq> None"
    "decimal_float ''NA'' = None"
    by (simp_all add: decimal_float_values)
  from c rows(2,3) d p' s' strip_example r show ?thesis by blast
qed

end
